theory Spec2Isabelle
  imports Main
begin

section \<open>JavaScript values used by the pipeline\<close>

text \<open>
  The sources are \<^verbatim>\<open>api/salesforce.js\<close> (the serverless handler) and \<^verbatim>\<open>server.js\<close> (the local
  development server, which repeats the pipeline inline).  JavaScript gives every property
  read three outcomes that the code tells apart only through \<^verbatim>\<open>!x\<close>, \<^verbatim>\<open>x || d\<close>,
  \<^verbatim>\<open>x != null\<close> and \<^verbatim>\<open>x?.p\<close>: the property is absent (\<^verbatim>\<open>undefined\<close>), it is \<^verbatim>\<open>null\<close>, or
  it holds a value of the type the Salesforce API documents for it.
  Strings are lists of code units restricted to the 8-bit range.
\<close>

datatype 'a jsval = Undefined | Null | Val 'a

text \<open>\<^verbatim>\<open>!!s\<close> for an optional string: only a non-empty string is truthy.\<close>

definition truthy_str :: "string jsval \<Rightarrow> bool" where
  "truthy_str v = (case v of Val s \<Rightarrow> s \<noteq> [] | _ \<Rightarrow> False)"

text \<open>\<^verbatim>\<open>s || d\<close> for an optional string \<open>s\<close> and a string literal \<open>d\<close>.\<close>

definition or_str :: "string jsval \<Rightarrow> string \<Rightarrow> string" where
  "or_str v d = (if truthy_str v then (case v of Val s \<Rightarrow> s | _ \<Rightarrow> d) else d)"

text \<open>\<^verbatim>\<open>`${s}`\<close>: the string conversion of a template literal.\<close>

definition template_str :: "string jsval \<Rightarrow> string" where
  "template_str v = (case v of Undefined \<Rightarrow> ''undefined'' | Null \<Rightarrow> ''null'' | Val s \<Rightarrow> s)"

subsection \<open>Integers as decimal strings\<close>

fun dec :: "nat \<Rightarrow> string" where
  "dec n = (if n < 10 then [''0123456789'' ! n]
            else dec (n div 10) @ [''0123456789'' ! (n mod 10)])"

declare dec.simps [simp del]

definition int_str :: "int \<Rightarrow> string" where
  "int_str i = (if i < 0 then CHR ''-'' # dec (nat (- i)) else dec (nat i))"

text \<open>\<^verbatim>\<open>minute: '2-digit'\<close>: two digits, zero padded.\<close>

definition two_digit :: "nat \<Rightarrow> string" where
  "two_digit n = (if n < 10 then CHR ''0'' # dec n else dec n)"

subsection \<open>\<^verbatim>\<open>String.prototype.split\<close> and \<^verbatim>\<open>parseInt(_, 10)\<close>\<close>

text \<open>
  \<^verbatim>\<open>s.split('-')\<close>: the pieces of \<open>s\<close> between the separators, in order; a string without
  separator, the empty string included, is its own single piece.
\<close>

fun split_on :: "char \<Rightarrow> string \<Rightarrow> string list" where
  "split_on c [] = [[]]"
| "split_on c (x # xs) =
     (if x = c then [] # split_on c xs
      else (case split_on c xs of [] \<Rightarrow> [[x]] | p # ps \<Rightarrow> (x # p) # ps))"

text \<open>
  Array destructuring \<^verbatim>\<open>const [a, b, c] = parts\<close> reads the elements by index; an index
  past the end gives \<^verbatim>\<open>undefined\<close>, here \<open>None\<close>.
\<close>

fun element :: "'a list \<Rightarrow> nat \<Rightarrow> 'a option" where
  "element [] i = None"
| "element (x # xs) 0 = Some x"
| "element (x # xs) (Suc i) = element xs i"

definition is_ws :: "char \<Rightarrow> bool" where
  "is_ws c = (of_char c \<in> {9::nat, 10, 11, 12, 13, 32, 160})"

definition is_digit :: "char \<Rightarrow> bool" where
  "is_digit c = (48 \<le> (of_char c :: nat) \<and> (of_char c :: nat) \<le> 57)"

definition digit_val :: "char \<Rightarrow> nat" where
  "digit_val c = of_char c - 48"

definition digits_value :: "string \<Rightarrow> nat" where
  "digits_value ds = foldl (\<lambda>a c. 10 * a + digit_val c) 0 ds"

text \<open>
  \<^verbatim>\<open>parseInt(s, 10)\<close>: leading white space is skipped, one sign is read, then the longest
  run of decimal digits; without a digit the result is \<^verbatim>\<open>NaN\<close>, here \<open>None\<close>.
\<close>

definition parseInt10 :: "string \<Rightarrow> int option" where
  "parseInt10 s =
     (let s1 = dropWhile is_ws s;
          neg = (case s1 of [] \<Rightarrow> False | c # _ \<Rightarrow> c = CHR ''-'');
          s2 = (case s1 of [] \<Rightarrow> [] | c # r \<Rightarrow> if c = CHR ''-'' \<or> c = CHR ''+'' then r else s1);
          ds = takeWhile is_digit s2
      in if ds = [] then None
         else Some (if neg then - int (digits_value ds) else int (digits_value ds)))"

text \<open>The argument of \<^verbatim>\<open>parseInt\<close> is converted to a string first: \<^verbatim>\<open>undefined\<close> reads as
  the text \<^verbatim>\<open>undefined\<close>, which has no digit.\<close>

definition parseInt_arg :: "string option \<Rightarrow> int option" where
  "parseInt_arg a = parseInt10 (case a of None \<Rightarrow> ''undefined'' | Some s \<Rightarrow> s)"

section \<open>The runtime the code calls into\<close>

text \<open>
  What the code takes from the JavaScript runtime and not from the repository is a
  parameter of the model:
  \<^item> \<open>Number_toString\<close>: \<^verbatim>\<open>Number.prototype.toString\<close> on an \<^verbatim>\<open>Amount\<close> as the JSON parser
    delivered it (the type \<open>'n\<close>);
  \<^item> \<open>inexact_toString\<close>: the text of the double nearest to an integer beyond \<open>2^53\<close>,
    where \<^verbatim>\<open>parseInt\<close> rounds;
  \<^item> \<open>Date_parse\<close>: the time value of \<^verbatim>\<open>new Date(s)\<close> in milliseconds since the epoch, \<open>None\<close>
    for an invalid date;
  \<^item> \<open>toLocaleString\<close>: \<^verbatim>\<open>date.toLocaleString('en-US', {month: 'numeric', day: 'numeric',
    year: 'numeric', hour: 'numeric', minute: '2-digit', hour12: true, timeZone: tz})\<close>, with
    \<open>tz = None\<close> when the option is left out and the runtime uses its local zone;
  \<^item> \<open>now_toISOString\<close>: \<^verbatim>\<open>new Date().toISOString()\<close> at the time of the call;
  \<^item> \<open>exception_message\<close>: the \<^verbatim>\<open>message\<close> of an exception the runtime itself throws: a
    rejected \<^verbatim>\<open>fetch\<close>, a body that is not JSON read without \<^verbatim>\<open>catch\<close>, a property read on
    \<^verbatim>\<open>null\<close> (a \<^verbatim>\<open>TypeError\<close>).
\<close>

datatype runtime_exception = FetchRejected | JsonSyntaxError | NullPropertyRead

record 'n runtime =
  Number_toString :: "'n \<Rightarrow> string"
  inexact_toString :: "int \<Rightarrow> string"
  Date_parse :: "string \<Rightarrow> int option"
  toLocaleString :: "string option \<Rightarrow> int option \<Rightarrow> string"
  now_toISOString :: string
  exception_message :: "runtime_exception \<Rightarrow> string"

text \<open>\<^verbatim>\<open>`${n}`\<close> for the result of \<^verbatim>\<open>parseInt\<close>: exact decimal digits up to \<open>2^53\<close>.\<close>

definition template_num :: "'n runtime \<Rightarrow> int option \<Rightarrow> string" where
  "template_num rt v =
     (case v of None \<Rightarrow> ''NaN''
      | Some i \<Rightarrow> if \<bar>i\<bar> \<le> 9007199254740992 then int_str i else inexact_toString rt i)"

section \<open>Record transformer\<close>

text \<open>
  A raw record as the query returns it: \<^verbatim>\<open>Amount\<close> is a number, \<^verbatim>\<open>CloseDate\<close>, the timestamp
  and \<^verbatim>\<open>StageName\<close> are strings, \<^verbatim>\<open>Owner\<close> is an object with a \<^verbatim>\<open>Name\<close>; each of them can be null
  or absent.  \<open>Id_sf\<close> is the field \<^verbatim>\<open>Id\<close>, which the transformer does not read.
\<close>

record sf_owner =
  Name :: "string jsval"

record 'n raw_record =
  Id_sf :: "string jsval"
  Amount :: "'n jsval"
  CloseDate :: "string jsval"
  Quote_sent_TImestamp_2__c :: "string jsval"
  StageName :: "string jsval"
  Owner :: "sf_owner jsval"

text \<open>\<^verbatim>\<open>formatDateMDY\<close>, the same text in both files.\<close>

definition formatDateMDY :: "'n runtime \<Rightarrow> string jsval \<Rightarrow> string" where
  "formatDateMDY rt isoDate =
     (case isoDate of
        Val s \<Rightarrow>
          if s = [] then ''''
          else (let parts = split_on (CHR ''-'') s;
                    year = element parts 0; month = element parts 1; day = element parts 2
                in template_num rt (parseInt_arg month) @ ''/'' @
                   template_num rt (parseInt_arg day) @ ''/'' @
                   (case year of None \<Rightarrow> ''undefined'' | Some y \<Rightarrow> y))
      | _ \<Rightarrow> '''')"

text \<open>\<^verbatim>\<open>deriveCloseMonth\<close>, the same text in both files.\<close>

definition deriveCloseMonth :: "'n runtime \<Rightarrow> string jsval \<Rightarrow> string" where
  "deriveCloseMonth rt isoDate =
     (case isoDate of
        Val s \<Rightarrow>
          if s = [] then ''''
          else (let parts = split_on (CHR ''-'') s;
                    year = element parts 0; month = element parts 1
                in template_num rt (parseInt_arg month) @ ''/1/'' @
                   (case year of None \<Rightarrow> ''undefined'' | Some y \<Rightarrow> y))
      | _ \<Rightarrow> '''')"

text \<open>\<^verbatim>\<open>formatTimestamp\<close> of \<^verbatim>\<open>api/salesforce.js\<close>: the zone is fixed by the call.\<close>

definition formatTimestamp :: "'n runtime \<Rightarrow> string jsval \<Rightarrow> string" where
  "formatTimestamp rt isoTimestamp =
     (case isoTimestamp of
        Val s \<Rightarrow>
          if s = [] then ''''
          else toLocaleString rt (Some ''America/New_York'') (Date_parse rt s)
      | _ \<Rightarrow> '''')"

text \<open>\<^verbatim>\<open>formatTimestamp\<close> of \<^verbatim>\<open>server.js\<close>: the call passes no \<^verbatim>\<open>timeZone\<close>.\<close>

definition server_formatTimestamp :: "'n runtime \<Rightarrow> string jsval \<Rightarrow> string" where
  "server_formatTimestamp rt isoTimestamp =
     (case isoTimestamp of
        Val s \<Rightarrow>
          if s = [] then ''''
          else toLocaleString rt None (Date_parse rt s)
      | _ \<Rightarrow> '''')"

text \<open>\<^verbatim>\<open>record.Owner?.Name\<close>: absent when the owner is absent or null.\<close>

definition owner_name :: "'n raw_record \<Rightarrow> string jsval" where
  "owner_name r = (case Owner r of Val ow \<Rightarrow> Name ow | _ \<Rightarrow> Undefined)"

text \<open>
  An output object is the list of its key and value pairs in the order the object literal
  writes them.
\<close>

type_synonym transformed = "(string \<times> string) list"

definition transformData :: "'n runtime \<Rightarrow> 'n raw_record list \<Rightarrow> transformed list" where
  "transformData rt records_in =
     map (\<lambda>r.
       [(''Amount'', (case Amount r of Val a \<Rightarrow> Number_toString rt a | _ \<Rightarrow> ''0'')),
        (''Close Date'', formatDateMDY rt (CloseDate r)),
        (''Quote sent TImestamp 2'', formatTimestamp rt (Quote_sent_TImestamp_2__c r)),
        (''Stage'', or_str (StageName r) ''''),
        (''Opportunity Owner'', or_str (owner_name r) ''Unknown''),
        (''Close Month'', deriveCloseMonth rt (CloseDate r))]) records_in"

text \<open>The inline \<^verbatim>\<open>allRecords.map\<close> of \<^verbatim>\<open>handleSalesforceAPI\<close> in \<^verbatim>\<open>server.js\<close>.\<close>

definition server_transform :: "'n runtime \<Rightarrow> 'n raw_record list \<Rightarrow> transformed list" where
  "server_transform rt records_in =
     map (\<lambda>r.
       [(''Amount'', (case Amount r of Val a \<Rightarrow> Number_toString rt a | _ \<Rightarrow> ''0'')),
        (''Close Date'', formatDateMDY rt (CloseDate r)),
        (''Quote sent TImestamp 2'', server_formatTimestamp rt (Quote_sent_TImestamp_2__c r)),
        (''Stage'', or_str (StageName r) ''''),
        (''Opportunity Owner'', or_str (owner_name r) ''Unknown''),
        (''Close Month'', deriveCloseMonth rt (CloseDate r))]) records_in"

section \<open>Outbound HTTP\<close>

text \<open>
  A request as \<^verbatim>\<open>fetch\<close> receives it.  The form body of the token request is kept as its
  list of fields, the text \<^verbatim>\<open>URLSearchParams.toString\<close> makes of them being the runtime's.
\<close>

datatype request_body = NoBody | Form "(string \<times> string) list"

record request =
  req_method :: string
  req_url :: string
  req_headers :: "(string \<times> string) list"
  req_body :: request_body

text \<open>
  What \<^verbatim>\<open>response.json()\<close> can deliver.  \<open>NotJson\<close>: the body is not JSON and the promise
  rejects.  \<open>JNull\<close>: the body is the JSON literal \<^verbatim>\<open>null\<close>, on which every property read
  throws a \<^verbatim>\<open>TypeError\<close>.  \<open>JScalar\<close>: the body is a number, a string or a boolean, on which
  every property the code reads (\<^verbatim>\<open>access_token\<close>, \<^verbatim>\<open>error_description\<close>, \<^verbatim>\<open>records\<close>,
  \<^verbatim>\<open>nextRecordsUrl\<close>, and \<^verbatim>\<open>message\<close> of the element 0) is \<^verbatim>\<open>undefined\<close>.  \<open>JArray\<close>: the array
  of error objects Salesforce sends with a failed query.  \<open>JObject\<close>: an object, of which
  the code reads the four fields below, each of the type the two Salesforce endpoints
  document for it, null or absent.
\<close>

record sf_error =
  message :: "string jsval"

record 'n json_object =
  access_token :: "string jsval"
  error_description :: "string jsval"
  records :: "'n raw_record list jsval"
  nextRecordsUrl :: "string jsval"

datatype 'n json_body =
  NotJson | JNull | JScalar | JArray "sf_error list" | JObject "'n json_object"

record 'n response =
  status :: nat
  body :: "'n json_body"

text \<open>\<^verbatim>\<open>response.ok\<close>: the status is in the range 200 to 299.\<close>

definition ok :: "'n response \<Rightarrow> bool" where
  "ok r = (200 \<le> status r \<and> status r \<le> 299)"

text \<open>
  \<^verbatim>\<open>await fetch(...)\<close> either resolves with a response or rejects (no connection).  The
  network a run meets is the answer to its first, second, third ... call; the state a run
  threads is the list of the requests it has issued so far.
\<close>

datatype 'n fetch_result = Rejected | Resolved "'n response"

type_synonym 'n network = "nat \<Rightarrow> 'n fetch_result"

definition fetch :: "'n network \<Rightarrow> request \<Rightarrow> request list \<Rightarrow> 'n fetch_result \<times> request list" where
  "fetch net req issued = (net (length issued), issued @ [req])"

subsection \<open>Errors\<close>

text \<open>
  The errors the code builds carry a message, a \<^verbatim>\<open>code\<close> and a \<^verbatim>\<open>status\<close>; the exceptions
  of the runtime (a rejected \<^verbatim>\<open>fetch\<close>, a body that is not JSON read without \<^verbatim>\<open>catch\<close>, a
  property read on \<^verbatim>\<open>null\<close>) carry neither \<^verbatim>\<open>code\<close> nor \<^verbatim>\<open>status\<close>.
\<close>

record app_error =
  err_message :: string
  err_code :: string
  err_status :: nat

text \<open>\<open>PlainError\<close> is a \<^verbatim>\<open>new Error(message)\<close> thrown as it is, as \<^verbatim>\<open>server.js\<close> does.\<close>

datatype thrown = Thrown app_error | Raised runtime_exception | PlainError string

subsection \<open>Property reads on a parsed body\<close>

text \<open>\<^verbatim>\<open>response.json().catch(() => ({}))\<close> turns a body that is not JSON into the empty
  object, every field of which is absent; every other body comes through as it is, the
  literal \<^verbatim>\<open>null\<close> included.\<close>

definition empty_object :: "'n json_object" where
  "empty_object = \<lparr> access_token = Undefined, error_description = Undefined,
                     records = Undefined, nextRecordsUrl = Undefined \<rparr>"

definition json_or_empty :: "'n json_body \<Rightarrow> 'n json_body" where
  "json_or_empty b = (case b of NotJson \<Rightarrow> JObject empty_object | _ \<Rightarrow> b)"

definition not_json :: "'n json_body \<Rightarrow> bool" where
  "not_json b = (case b of NotJson \<Rightarrow> True | _ \<Rightarrow> False)"

text \<open>A property read on \<open>x\<close> throws exactly when \<open>x\<close> is \<^verbatim>\<open>null\<close>.\<close>

definition is_null :: "'n json_body \<Rightarrow> bool" where
  "is_null b = (case b of JNull \<Rightarrow> True | _ \<Rightarrow> False)"

text \<open>The reads below are used on a body that is not \<^verbatim>\<open>null\<close>.\<close>

definition body_error_description :: "'n json_body \<Rightarrow> string jsval" where
  "body_error_description b = (case b of JObject obj \<Rightarrow> error_description obj | _ \<Rightarrow> Undefined)"

text \<open>\<^verbatim>\<open>errorData[0]?.message\<close>\<close>

definition first_message :: "'n json_body \<Rightarrow> string jsval" where
  "first_message b = (case b of JArray (e # _) \<Rightarrow> message e | _ \<Rightarrow> Undefined)"

definition body_access_token :: "'n json_body \<Rightarrow> string jsval" where
  "body_access_token b = (case b of JObject obj \<Rightarrow> access_token obj | _ \<Rightarrow> Undefined)"

definition body_records :: "'n json_body \<Rightarrow> 'n raw_record list jsval" where
  "body_records b = (case b of JObject obj \<Rightarrow> records obj | _ \<Rightarrow> Undefined)"

definition body_nextRecordsUrl :: "'n json_body \<Rightarrow> string jsval" where
  "body_nextRecordsUrl b = (case b of JObject obj \<Rightarrow> nextRecordsUrl obj | _ \<Rightarrow> Undefined)"

section \<open>Configuration\<close>

text \<open>\<^verbatim>\<open>process.env\<close>: a variable that is not set reads as \<open>Undefined\<close>.\<close>

record env =
  SF_CLIENT_ID :: "string jsval"
  SF_CLIENT_SECRET :: "string jsval"
  SF_REFRESH_TOKEN :: "string jsval"
  SF_INSTANCE_URL :: "string jsval"

text \<open>\<^verbatim>\<open>!s\<close>\<close>

definition falsy_str :: "string jsval \<Rightarrow> bool" where
  "falsy_str v = (\<not> truthy_str v)"

section \<open>Authenticator\<close>

definition tokenUrl :: string where
  "tokenUrl = ''https://login.salesforce.com/services/oauth2/token''"

definition token_request :: "env \<Rightarrow> request" where
  "token_request e =
     \<lparr> req_method = ''POST'',
       req_url = tokenUrl,
       req_headers = [(''Content-Type'', ''application/x-www-form-urlencoded'')],
       req_body = Form [(''grant_type'', ''refresh_token''),
                        (''client_id'', template_str (SF_CLIENT_ID e)),
                        (''client_secret'', template_str (SF_CLIENT_SECRET e)),
                        (''refresh_token'', template_str (SF_REFRESH_TOKEN e))] \<rparr>"

text \<open>
  \<^verbatim>\<open>refreshAccessToken\<close> of \<^verbatim>\<open>api/salesforce.js\<close>.  The result is the value returned or the
  error thrown, with the requests issued.
\<close>

definition refreshAccessToken ::
  "env \<Rightarrow> 'n network \<Rightarrow> request list \<Rightarrow> (thrown + string jsval) \<times> request list" where
  "refreshAccessToken e net issued =
     (if falsy_str (SF_CLIENT_ID e) \<or> falsy_str (SF_CLIENT_SECRET e) \<or> falsy_str (SF_REFRESH_TOKEN e)
      then (Inl (Thrown \<lparr> err_message = ''Missing Salesforce credentials in environment variables'',
                          err_code = ''CONFIG_ERROR'', err_status = 500 \<rparr>), issued)
      else (case fetch net (token_request e) issued of
              (Rejected, issued') \<Rightarrow> (Inl (Raised FetchRejected), issued')
            | (Resolved response, issued') \<Rightarrow>
                if \<not> ok response
                then (let errorData = json_or_empty (body response)
                      in if is_null errorData then (Inl (Raised NullPropertyRead), issued')
                         else (Inl (Thrown \<lparr> err_message =
                                               or_str (body_error_description errorData)
                                                 ''Failed to authenticate with Salesforce'',
                                             err_code = ''AUTH_ERROR'', err_status = 401 \<rparr>),
                               issued'))
                else if not_json (body response) then (Inl (Raised JsonSyntaxError), issued')
                else (let data = body response
                      in if is_null data then (Inl (Raised NullPropertyRead), issued')
                         else (Inr (body_access_token data), issued'))))"

text \<open>
  The token step of \<^verbatim>\<open>handleSalesforceAPI\<close> in \<^verbatim>\<open>server.js\<close>: no check of the configuration
  or of the status, the body is read whatever the status, and a missing or empty
  \<^verbatim>\<open>access_token\<close> throws.
\<close>

definition server_token_step ::
  "env \<Rightarrow> 'n network \<Rightarrow> request list \<Rightarrow> (thrown + string) \<times> request list" where
  "server_token_step e net issued =
     (case fetch net (token_request e) issued of
        (Rejected, issued') \<Rightarrow> (Inl (Raised FetchRejected), issued')
      | (Resolved tokenResponse, issued') \<Rightarrow>
          if not_json (body tokenResponse) then (Inl (Raised JsonSyntaxError), issued')
          else (let tokenData = body tokenResponse
                in if is_null tokenData then (Inl (Raised NullPropertyRead), issued')
                   else if falsy_str (body_access_token tokenData)
                   then (Inl (PlainError (or_str (body_error_description tokenData) ''OAuth failed'')),
                         issued')
                   else (Inr (template_str (body_access_token tokenData)), issued')))"

section \<open>Paginated fetcher\<close>

text \<open>The query text after \<^verbatim>\<open>.trim().replace(/\s+/g, ' ')\<close>.\<close>

definition soqlQuery :: string where
  "soqlQuery = ''SELECT Id, Amount, CloseDate, Quote_sent_TImestamp_2__c, StageName, Owner.Name FROM Opportunity WHERE Quote_sent_TImestamp_2__c != null''"

definition uri_unreserved :: "char \<Rightarrow> bool" where
  "uri_unreserved c =
     (let n = (of_char c :: nat)
      in (65 \<le> n \<and> n \<le> 90) \<or> (97 \<le> n \<and> n \<le> 122) \<or> (48 \<le> n \<and> n \<le> 57) \<or>
         n \<in> {45, 95, 46, 33, 126, 42, 39, 40, 41})"

definition percent :: "nat \<Rightarrow> string" where
  "percent n = [CHR ''%'', ''0123456789ABCDEF'' ! (n div 16), ''0123456789ABCDEF'' ! (n mod 16)]"

text \<open>\<^verbatim>\<open>encodeURIComponent\<close>: letters, digits and \<^verbatim>\<open>- _ . ! ~ * ' ( )\<close> stay, every other code unit
  is written as the percent-escaped bytes of its UTF-8 form.\<close>

definition encodeURIComponent :: "string \<Rightarrow> string" where
  "encodeURIComponent s =
     concat (map (\<lambda>c. if uri_unreserved c then [c]
                       else (let n = (of_char c :: nat)
                             in if n < 128 then percent n
                                else percent (192 + n div 64) @ percent (128 + n mod 64))) s)"

definition queryUrl :: "string \<Rightarrow> string" where
  "queryUrl inst = inst @ ''/services/data/v59.0/query?q='' @ encodeURIComponent soqlQuery"

definition page_request :: "string jsval \<Rightarrow> string \<Rightarrow> request" where
  "page_request accessToken url =
     \<lparr> req_method = ''GET'',
       req_url = url,
       req_headers = [(''Authorization'', ''Bearer '' @ template_str accessToken),
                      (''Content-Type'', ''application/json'')],
       req_body = NoBody \<rparr>"

text \<open>
  The \<^verbatim>\<open>while (nextRecordsUrl)\<close> loop of \<^verbatim>\<open>querySalesforce\<close>.  Nothing in the code bounds the
  number of rounds, so the loop is a partial function: \<open>None\<close> is the run that never
  leaves the loop.
\<close>

partial_function (option) query_loop ::
  "'n network \<Rightarrow> string \<Rightarrow> string jsval \<Rightarrow> string jsval \<Rightarrow> 'n raw_record list \<Rightarrow> request list
     \<Rightarrow> ((thrown + 'n raw_record list) \<times> request list) option" where
  "query_loop net inst accessToken nextUrl allRecords issued =
     (if falsy_str nextUrl then Some (Inr allRecords, issued)
      else (case fetch net (page_request accessToken (template_str nextUrl)) issued of
              (Rejected, issued') \<Rightarrow> Some (Inl (Raised FetchRejected), issued')
            | (Resolved response, issued') \<Rightarrow>
                if \<not> ok response
                then (let errorData = json_or_empty (body response)
                      in if is_null errorData then Some (Inl (Raised NullPropertyRead), issued')
                         else Some (Inl (Thrown \<lparr> err_message =
                                                    or_str (first_message errorData)
                                                      ''Failed to query Salesforce'',
                                                  err_code = ''QUERY_ERROR'',
                                                  err_status = status response \<rparr>), issued'))
                else if not_json (body response) then Some (Inl (Raised JsonSyntaxError), issued')
                else (let data = body response
                      in if is_null data then Some (Inl (Raised NullPropertyRead), issued')
                         else (let allRecords' =
                                     allRecords @ (case body_records data of Val rs \<Rightarrow> rs | _ \<Rightarrow> [])
                               in if truthy_str (body_nextRecordsUrl data)
                                  then query_loop net inst accessToken
                                         (Val (inst @ template_str (body_nextRecordsUrl data)))
                                         allRecords' issued'
                                  else query_loop net inst accessToken Null allRecords' issued'))))"

declare query_loop.simps [code]

text \<open>\<^verbatim>\<open>querySalesforce\<close> of \<^verbatim>\<open>api/salesforce.js\<close>.\<close>

definition querySalesforce ::
  "env \<Rightarrow> 'n network \<Rightarrow> string jsval \<Rightarrow> request list
     \<Rightarrow> ((thrown + 'n raw_record list) \<times> request list) option" where
  "querySalesforce e net accessToken issued =
     (if falsy_str (SF_INSTANCE_URL e)
      then Some (Inl (Thrown \<lparr> err_message = ''Missing SF_INSTANCE_URL in environment variables'',
                               err_code = ''CONFIG_ERROR'', err_status = 500 \<rparr>), issued)
      else query_loop net (template_str (SF_INSTANCE_URL e)) accessToken
             (Val (queryUrl (template_str (SF_INSTANCE_URL e)))) [] issued)"

section \<open>Inbound handler\<close>

text \<open>
  The request as far as the handler reads it, and the reply it writes: the status, the
  headers set with \<^verbatim>\<open>res.setHeader\<close>, and the JSON written (\<open>ErrorJson error code\<close> is
  \<^verbatim>\<open>{success: false, error, code}\<close>, \<open>SuccessJson data recordCount fetchedAt\<close> is
  \<^verbatim>\<open>{success: true, data, recordCount, fetchedAt}\<close>, \<open>NoContent\<close> is \<^verbatim>\<open>res.end()\<close>).
\<close>

record inbound =
  http_method :: string

datatype json_reply = NoContent | ErrorJson string string | SuccessJson "transformed list" nat string

record reply =
  reply_status :: nat
  reply_headers :: "(string \<times> string) list"
  reply_json :: json_reply

definition cors_headers :: "(string \<times> string) list" where
  "cors_headers = [(''Access-Control-Allow-Origin'', ''*''),
                   (''Access-Control-Allow-Methods'', ''GET, OPTIONS''),
                   (''Access-Control-Allow-Headers'', ''Content-Type'')]"

text \<open>The \<^verbatim>\<open>catch\<close> block: \<^verbatim>\<open>error.status || 500\<close>, \<^verbatim>\<open>error.message || ...\<close>,
  \<^verbatim>\<open>error.code || 'UNKNOWN_ERROR'\<close>.\<close>

definition error_reply :: "'n runtime \<Rightarrow> thrown \<Rightarrow> reply" where
  "error_reply rt err =
     (case err of
        Thrown a \<Rightarrow>
          \<lparr> reply_status = (if err_status a = 0 then 500 else err_status a),
            reply_headers = cors_headers,
            reply_json = ErrorJson (or_str (Val (err_message a)) ''An unexpected error occurred'')
                                   (or_str (Val (err_code a)) ''UNKNOWN_ERROR'') \<rparr>
      | Raised x \<Rightarrow>
          \<lparr> reply_status = 500,
            reply_headers = cors_headers,
            reply_json = ErrorJson (or_str (Val (exception_message rt x))
                                      ''An unexpected error occurred'') ''UNKNOWN_ERROR'' \<rparr>
      | PlainError m \<Rightarrow>
          \<lparr> reply_status = 500,
            reply_headers = cors_headers,
            reply_json = ErrorJson (or_str (Val m) ''An unexpected error occurred'')
                                   ''UNKNOWN_ERROR'' \<rparr>)"

text \<open>\<^verbatim>\<open>handler\<close> of \<^verbatim>\<open>api/salesforce.js\<close>, statement by statement.\<close>

definition handler ::
  "'n runtime \<Rightarrow> env \<Rightarrow> 'n network \<Rightarrow> inbound \<Rightarrow> (reply \<times> request list) option" where
  "handler rt e net req =
     (if http_method req \<noteq> ''GET''
      then Some (\<lparr> reply_status = 405, reply_headers = [],
                   reply_json = ErrorJson ''Method not allowed'' ''METHOD_NOT_ALLOWED'' \<rparr>, [])
      else if http_method req = ''OPTIONS''
      then Some (\<lparr> reply_status = 200, reply_headers = cors_headers, reply_json = NoContent \<rparr>, [])
      else (case refreshAccessToken e net [] of
              (Inl err, issued) \<Rightarrow> Some (error_reply rt err, issued)
            | (Inr accessToken, issued) \<Rightarrow>
                (case querySalesforce e net accessToken issued of
                   None \<Rightarrow> None
                 | Some (Inl err, issued') \<Rightarrow> Some (error_reply rt err, issued')
                 | Some (Inr opportunities, issued') \<Rightarrow>
                     (let transformedData = transformData rt opportunities
                      in Some (\<lparr> reply_status = 200, reply_headers = cors_headers,
                                   reply_json = SuccessJson transformedData (length transformedData)
                                                  (now_toISOString rt) \<rparr>, issued')))))"

text \<open>The first lines of the request listener of \<^verbatim>\<open>server.js\<close>: an \<^verbatim>\<open>OPTIONS\<close> request is
  answered with 200 before anything else is looked at.  \<open>None\<close> stands for the rest of the
  listener (the API route and the static files).\<close>

definition server_preflight :: "inbound \<Rightarrow> reply option" where
  "server_preflight req =
     (if http_method req = ''OPTIONS''
      then Some \<lparr> reply_status = 200,
                  reply_headers = [(''Access-Control-Allow-Origin'', ''*''),
                                   (''Access-Control-Allow-Methods'', ''GET, OPTIONS'')],
                  reply_json = NoContent \<rparr>
      else None)"

section \<open>A reference runtime\<close>

text \<open>
  A concrete runtime, used to evaluate the code at concrete inputs.  It follows Node.js on
  the inputs Salesforce produces and nothing more: amounts are integers; \<^verbatim>\<open>new Date\<close> reads
  \<^verbatim>\<open>YYYY-MM-DDTHH:mm:ss\<close>, an optional \<^verbatim>\<open>.sss\<close>, and an offset \<^verbatim>\<open>Z\<close>, \<^verbatim>\<open>+HHmm\<close> or \<^verbatim>\<open>+HH:mm\<close>;
  the zone table knows \<^verbatim>\<open>UTC\<close>,
  \<^verbatim>\<open>Asia/Tokyo\<close> and \<^verbatim>\<open>America/New_York\<close> under the United States rule in force since 2007
  (daylight time from the second Sunday of March, 07:00 UTC, to the first Sunday of
  November, 06:00 UTC); the en-US pattern is \<^verbatim>\<open>M/D/YYYY, H:MM AM\<close> with plain spaces, for
  years from 1 on.

  Outside these inputs the reference runtime is not Node.js: a date without a time and a
  date-time without an offset, which Node.js reads as UTC and as local time, are no dates
  for \<open>ref_Date_parse\<close>; instants before 2007 get the rule of 2007; an amount with a
  fraction has no text.  The evaluations below use the reference runtime only at
  timestamps with an explicit offset from 2007 on, and at integer amounts.
\<close>

definition days_from_civil :: "int \<Rightarrow> int \<Rightarrow> int \<Rightarrow> int" where
  "days_from_civil y m d =
     (let y' = (if m \<le> 2 then y - 1 else y);
          era = y' div 400;
          yoe = y' - era * 400;
          doy = (153 * (if m > 2 then m - 3 else m + 9) + 2) div 5 + d - 1;
          doe = yoe * 365 + yoe div 4 - yoe div 100 + doy
      in era * 146097 + doe - 719468)"

definition civil_from_days :: "int \<Rightarrow> int \<times> int \<times> int" where
  "civil_from_days z =
     (let z' = z + 719468;
          era = z' div 146097;
          doe = z' - era * 146097;
          yoe = (doe - doe div 1460 + doe div 36524 - doe div 146096) div 365;
          doy = doe - (365 * yoe + yoe div 4 - yoe div 100);
          mp = (5 * doy + 2) div 153;
          d = doy - (153 * mp + 2) div 5 + 1;
          m = (if mp < 10 then mp + 3 else mp - 9);
          y = yoe + era * 400
      in ((if m \<le> 2 then y + 1 else y), m, d))"

definition digits_at :: "string \<Rightarrow> nat \<Rightarrow> nat \<Rightarrow> nat option" where
  "digits_at s i n =
     (let ds = take n (drop i s)
      in if length ds = n \<and> list_all is_digit ds then Some (digits_value ds) else None)"

definition days_in_month :: "int \<Rightarrow> int \<Rightarrow> int" where
  "days_in_month y m =
     (if m = 2 then (if y mod 4 = 0 \<and> (y mod 100 \<noteq> 0 \<or> y mod 400 = 0) then 29 else 28)
      else if m \<in> {4, 6, 9, 11} then 30 else 31)"

definition parse_offset :: "string \<Rightarrow> int option" where
  "parse_offset z =
     (if z = ''Z'' then Some 0
      else case z of
        [] \<Rightarrow> None
      | sg # r \<Rightarrow>
          if sg \<noteq> CHR ''+'' \<and> sg \<noteq> CHR ''-'' then None
          else (let hm = (if length r = 5 \<and> element r 2 = Some (CHR '':'')
                          then take 2 r @ drop 3 r else r)
                in if length hm \<noteq> 4 then None
                   else (case (digits_at hm 0 2, digits_at hm 2 2) of
                           (Some h, Some m) \<Rightarrow>
                             if h < 24 \<and> m < 60
                             then Some ((if sg = CHR ''-'' then - 1 else 1)
                                        * (int h * 60 + int m) * 60000)
                             else None
                         | _ \<Rightarrow> None)))"

definition ref_Date_parse :: "string \<Rightarrow> int option" where
  "ref_Date_parse s =
     (case (digits_at s 0 4, digits_at s 5 2, digits_at s 8 2,
            digits_at s 11 2, digits_at s 14 2, digits_at s 17 2) of
        (Some y, Some mo, Some d, Some h, Some mi, Some sec) \<Rightarrow>
          if element s 4 = Some (CHR ''-'') \<and> element s 7 = Some (CHR ''-'') \<and>
             element s 10 = Some (CHR ''T'') \<and> element s 13 = Some (CHR '':'') \<and>
             element s 16 = Some (CHR '':'') \<and>
             1 \<le> mo \<and> mo \<le> 12 \<and> 1 \<le> d \<and> int d \<le> days_in_month (int y) (int mo) \<and>
             h < 24 \<and> mi < 60 \<and> sec < 60
          then (let dot = (element s 19 = Some (CHR ''.''));
                    frac = (if dot then digits_at s 20 3 else Some 0);
                    rest = (if dot then drop 23 s else drop 19 s)
                in case (frac, parse_offset rest) of
                     (Some ms, Some off) \<Rightarrow>
                       Some (days_from_civil (int y) (int mo) (int d) * 86400000
                             + (int h * 3600 + int mi * 60 + int sec) * 1000 + int ms - off)
                   | _ \<Rightarrow> None)
          else None
      | _ \<Rightarrow> None)"

text \<open>The day of the month of the \<open>k\<close>-th Sunday (\<open>k\<close> from 1) of a month; 1 January 1970
  was a Thursday.\<close>

definition nth_sunday :: "int \<Rightarrow> int \<Rightarrow> int \<Rightarrow> int" where
  "nth_sunday y m k =
     (let wd = (days_from_civil y m 1 + 4) mod 7
      in 1 + (7 - wd) mod 7 + 7 * (k - 1))"

definition ref_zone_offset :: "string \<Rightarrow> int \<Rightarrow> int" where
  "ref_zone_offset zone t =
     (if zone = ''America/New_York''
      then (let y = fst (civil_from_days (t div 86400000));
                dst_from = days_from_civil y 3 (nth_sunday y 3 2) * 86400000 + 7 * 3600000;
                dst_to = days_from_civil y 11 (nth_sunday y 11 1) * 86400000 + 6 * 3600000
            in if dst_from \<le> t \<and> t < dst_to then - 4 * 3600000 else - 5 * 3600000)
      else if zone = ''Asia/Tokyo'' then 9 * 3600000
      else 0)"

definition ref_toLocaleString :: "string \<Rightarrow> string option \<Rightarrow> int option \<Rightarrow> string" where
  "ref_toLocaleString local_zone tz tv =
     (case tv of
        None \<Rightarrow> ''Invalid Date''
      | Some t \<Rightarrow>
          (let zone = (case tz of None \<Rightarrow> local_zone | Some z \<Rightarrow> z);
               loc = t + ref_zone_offset zone t;
               ymd = civil_from_days (loc div 86400000);
               ms = loc mod 86400000;
               h24 = nat (ms div 3600000);
               mi = nat ((ms div 60000) mod 60);
               h12 = (if h24 mod 12 = 0 then 12 else h24 mod 12)
           in int_str (fst (snd ymd)) @ ''/'' @ int_str (snd (snd ymd)) @ ''/'' @
              int_str (fst ymd) @ '', '' @ dec h12 @ '':'' @ two_digit mi @ '' '' @
              (if h24 < 12 then ''AM'' else ''PM'')))"

text \<open>The reference runtime of a process whose local zone is \<open>local_zone\<close> and whose clock
  reads \<open>now\<close>.\<close>

definition ref_runtime :: "string \<Rightarrow> string \<Rightarrow> int runtime" where
  "ref_runtime local_zone now =
     \<lparr> Number_toString = int_str,
       inexact_toString = int_str,
       Date_parse = ref_Date_parse,
       toLocaleString = ref_toLocaleString local_zone,
       now_toISOString = now,
       exception_message = (\<lambda>x. case x of FetchRejected \<Rightarrow> ''fetch failed''
                                   | JsonSyntaxError \<Rightarrow> ''Unexpected token in JSON''
                                   | NullPropertyRead \<Rightarrow> ''Cannot read properties of null'') \<rparr>"

section \<open>Vocabulary of the statements\<close>

text \<open>
  A response is a successful page when the call resolved with a status in the 2xx range
  and a JSON body other than \<^verbatim>\<open>null\<close>.  Its records are \<^verbatim>\<open>data.records || []\<close>, its continuation is
  \<^verbatim>\<open>data.nextRecordsUrl\<close>; the loop goes on after it when the continuation is truthy.
\<close>

definition success_page :: "'n fetch_result \<Rightarrow> bool" where
  "success_page r =
     (case r of Rejected \<Rightarrow> False
      | Resolved resp \<Rightarrow> ok resp \<and> \<not> not_json (body resp) \<and> \<not> is_null (body resp))"

definition page_records :: "'n fetch_result \<Rightarrow> 'n raw_record list" where
  "page_records r =
     (case r of Rejected \<Rightarrow> []
      | Resolved resp \<Rightarrow> (case body_records (body resp) of Val rs \<Rightarrow> rs | _ \<Rightarrow> []))"

definition continuation :: "'n fetch_result \<Rightarrow> string jsval" where
  "continuation r =
     (case r of Rejected \<Rightarrow> Undefined | Resolved resp \<Rightarrow> body_nextRecordsUrl (body resp))"

definition continuing :: "'n fetch_result \<Rightarrow> bool" where
  "continuing r = (success_page r \<and> truthy_str (continuation r))"

text \<open>
  A run that starts with \<open>n\<close> requests already issued sends its page request number \<open>i\<close>
  (from 0) to \<open>request_url net inst u n i\<close>: the first to \<open>u\<close>, each later one to the instance
  URL followed by the continuation of the response before.
\<close>

definition request_url :: "'n network \<Rightarrow> string \<Rightarrow> string \<Rightarrow> nat \<Rightarrow> nat \<Rightarrow> string" where
  "request_url net inst u n i =
     (if i = 0 then u else inst @ template_str (continuation (net (n + i - 1))))"

definition requests_upto ::
  "'n network \<Rightarrow> string \<Rightarrow> string jsval \<Rightarrow> string \<Rightarrow> nat \<Rightarrow> nat \<Rightarrow> request list" where
  "requests_upto net inst tok u n k =
     map (\<lambda>i. page_request tok (request_url net inst u n i)) [0..<k]"

text \<open>The records of the first \<open>k\<close> pages of that run, page after page.\<close>

definition records_upto :: "'n network \<Rightarrow> nat \<Rightarrow> nat \<Rightarrow> 'n raw_record list" where
  "records_upto net n k = concat (map (\<lambda>i. page_records (net (n + i))) [0..<k])"

text \<open>A field that is \<^verbatim>\<open>null\<close> or absent.\<close>

definition nullish :: "'a jsval \<Rightarrow> bool" where
  "nullish v = (case v of Val _ \<Rightarrow> False | _ \<Rightarrow> True)"

definition output_keys :: "string list" where
  "output_keys = [''Amount'', ''Close Date'', ''Quote sent TImestamp 2'', ''Stage'',
                  ''Opportunity Owner'', ''Close Month'']"

text \<open>A calendar date written \<^verbatim>\<open>YYYY-MM-DD\<close>.\<close>

definition iso_date :: "string \<Rightarrow> char \<Rightarrow> char \<Rightarrow> char \<Rightarrow> char \<Rightarrow> string" where
  "iso_date y m1 m2 d1 d2 = y @ ''-'' @ [m1, m2] @ ''-'' @ [d1, d2]"

section \<open>Concrete inputs\<close>

definition sample_env :: env where
  "sample_env =
     \<lparr> SF_CLIENT_ID = Val ''client'', SF_CLIENT_SECRET = Val ''secret'',
       SF_REFRESH_TOKEN = Val ''refresh'',
       SF_INSTANCE_URL = Val ''https://acme.my.salesforce.com'' \<rparr>"

definition opportunity :: "string \<Rightarrow> int raw_record" where
  "opportunity i =
     \<lparr> Id_sf = Val i, Amount = Val 1500, CloseDate = Val ''2023-07-20'',
       Quote_sent_TImestamp_2__c = Val ''2023-08-28T12:07:00.000+0000'',
       StageName = Val ''Closed Won'', Owner = Val \<lparr> Name = Val ''Ada'' \<rparr> \<rparr>"

text \<open>The opportunity whose \<open>CloseDate\<close> is the given text.\<close>

definition closing_on :: "string \<Rightarrow> int raw_record" where
  "closing_on d = (opportunity ''006B'') \<lparr> CloseDate := Val d \<rparr>"

text \<open>A record of which Salesforce filled in nothing but the \<open>Id\<close>, and the output the
  transformer owes it.\<close>

definition blank_record :: "string \<Rightarrow> int raw_record" where
  "blank_record i =
     \<lparr> Id_sf = Val i, Amount = Null, CloseDate = Null, Quote_sent_TImestamp_2__c = Undefined,
       StageName = Undefined, Owner = Null \<rparr>"

definition default_output :: transformed where
  "default_output =
     [(''Amount'', ''0''), (''Close Date'', ''''), (''Quote sent TImestamp 2'', ''''),
      (''Stage'', ''''), (''Opportunity Owner'', ''Unknown''), (''Close Month'', '''')]"

text \<open>A 200 response with the body \<^verbatim>\<open>{records, nextRecordsUrl}\<close>, and one with \<^verbatim>\<open>{access_token}\<close>.\<close>

definition json_page :: "'n raw_record list jsval \<Rightarrow> string jsval \<Rightarrow> 'n fetch_result" where
  "json_page rs next_url =
     Resolved \<lparr> status = 200,
                body = JObject \<lparr> access_token = Undefined, error_description = Undefined,
                                 records = rs, nextRecordsUrl = next_url \<rparr> \<rparr>"

definition token_reply :: "string jsval \<Rightarrow> 'n fetch_result" where
  "token_reply tok =
     Resolved \<lparr> status = 200,
                body = JObject \<lparr> access_token = tok, error_description = Undefined,
                                 records = Undefined, nextRecordsUrl = Undefined \<rparr> \<rparr>"

text \<open>A failed query: the status and the array \<^verbatim>\<open>[{message}]\<close>.\<close>

definition error_page :: "nat \<Rightarrow> string \<Rightarrow> 'n fetch_result" where
  "error_page st msg = Resolved \<lparr> status = st, body = JArray [\<lparr> message = Val msg \<rparr>] \<rparr>"

text \<open>The network that gives the listed answers in order and refuses every later call.\<close>

definition serve :: "'n fetch_result list \<Rightarrow> 'n network" where
  "serve answers i = (if i < length answers then answers ! i else Rejected)"

text \<open>The network whose every answer is the same.\<close>

definition always :: "'n fetch_result \<Rightarrow> 'n network" where
  "always answer i = answer"

text \<open>Three pages of two, two and one records.\<close>

definition three_pages :: "int network" where
  "three_pages =
     serve [json_page (Val [opportunity ''A1'', opportunity ''A2''])
              (Val ''/services/data/v59.0/query/01gRO-2000''),
            json_page (Val [opportunity ''B1'', opportunity ''B2''])
              (Val ''/services/data/v59.0/query/01gRO-4000''),
            json_page (Val [opportunity ''C1'']) Undefined]"

text \<open>A first page whose \<^verbatim>\<open>nextRecordsUrl\<close> is there but empty, before a page without the
  field.\<close>

definition empty_cursor_pages :: "int network" where
  "empty_cursor_pages =
     serve [json_page (Val [opportunity ''A1'']) (Val ''''),
            json_page (Val [opportunity ''B1'']) Undefined]"

text \<open>A page with a continuation, then a failed request.\<close>

definition failing_second_page :: "int network" where
  "failing_second_page =
     serve [json_page (Val [opportunity ''A1'']) (Val ''/services/data/v59.0/query/01gRO-2000''),
            error_page 503 ''Service unavailable'']"

text \<open>A failed query whose body is the JSON literal \<^verbatim>\<open>null\<close>.\<close>

definition null_error_page :: "nat \<Rightarrow> 'n fetch_result" where
  "null_error_page st = Resolved \<lparr> status = st, body = JNull \<rparr>"

text \<open>A page with a continuation, then a failed request with the body \<^verbatim>\<open>null\<close>.\<close>

definition null_failure_after_page :: "int network" where
  "null_failure_after_page =
     serve [json_page (Val [opportunity ''A1'']) (Val ''/services/data/v59.0/query/01gRO-2000''),
            null_error_page 503]"

text \<open>What a whole run of the handler meets: the token, then pages.\<close>

definition token_then_failure :: "int network" where
  "token_then_failure =
     serve [token_reply (Val ''00Dtoken''),
            json_page (Val [opportunity ''A1'']) (Val ''/services/data/v59.0/query/01gRO-2000''),
            error_page 503 ''Service unavailable'']"

definition token_then_page :: "int network" where
  "token_then_page =
     serve [token_reply (Val ''00Dtoken''), json_page (Val [opportunity ''A1'']) Undefined]"

text \<open>The sample configuration without the instance URL, and with an empty client
  identifier.\<close>

definition no_instance_env :: env where
  "no_instance_env = sample_env \<lparr> SF_INSTANCE_URL := Undefined \<rparr>"

definition no_client_env :: env where
  "no_client_env = sample_env \<lparr> SF_CLIENT_ID := Val '''' \<rparr>"

text \<open>The reference runtime of a process in the zone UTC.\<close>

definition sample_runtime :: "int runtime" where
  "sample_runtime = ref_runtime ''UTC'' ''2024-01-01T00:00:00.000Z''"

section \<open>Strings and numbers\<close>

lemma split_on_nonempty: "split_on c s \<noteq> []"
  by (induction s) (auto split: list.splits)

lemma element_Cons: "element (x # xs) i = (if i = 0 then Some x else element xs (i - 1))"
  by (cases i) simp_all

lemma split_on_single: "c \<notin> set a \<Longrightarrow> split_on c a = [a]"
  by (induction a) auto

lemma split_on_piece: "c \<notin> set a \<Longrightarrow> split_on c (a @ c # rest) = a # split_on c rest"
  by (induction a) auto

lemma digit_not_dash: "is_digit c \<Longrightarrow> c \<noteq> CHR ''-''"
  by (auto simp: is_digit_def)

lemma digit_not_plus: "is_digit c \<Longrightarrow> c \<noteq> CHR ''+''"
  by (auto simp: is_digit_def)

lemma digit_not_ws: "is_digit c \<Longrightarrow> \<not> is_ws c"
  by (auto simp: is_digit_def is_ws_def)

lemma digit_val_le: "is_digit c \<Longrightarrow> digit_val c \<le> 9"
  by (auto simp: is_digit_def digit_val_def)

lemma parseInt10_two_digits:
  assumes "is_digit a" and "is_digit b"
  shows "parseInt10 [a, b] = Some (int (10 * digit_val a + digit_val b))"
  using assms
  by (simp add: parseInt10_def digit_not_ws digit_not_dash digit_not_plus digits_value_def)

lemma template_num_small: "n \<le> 99 \<Longrightarrow> template_num rt (Some (int n)) = dec n"
  by (simp add: template_num_def int_str_def)

lemma dec_nonempty: "dec n \<noteq> []"
  by (subst dec.simps) simp

lemma dec_no_leading_zero: "0 < n \<Longrightarrow> hd (dec n) \<noteq> CHR ''0''"
proof (induction n rule: dec.induct)
  case (1 n)
  show ?case
  proof (cases "n < 10")
    case True
    with "1.prems" have "n \<in> {1, 2, 3, 4, 5, 6, 7, 8, 9}" by auto
    then show ?thesis by (subst dec.simps) auto
  next
    case False
    then have "0 < n div 10" by simp
    with 1 False have "hd (dec (n div 10)) \<noteq> CHR ''0''" by simp
    then show ?thesis using False by (subst dec.simps) (simp add: dec_nonempty)
  qed
qed

lemma formatDateMDY_iso:
  assumes y: "list_all is_digit y"
    and m: "is_digit m1" "is_digit m2" and d: "is_digit d1" "is_digit d2"
  shows "formatDateMDY rt (Val (iso_date y m1 m2 d1 d2)) =
           dec (10 * digit_val m1 + digit_val m2) @ ''/'' @
           dec (10 * digit_val d1 + digit_val d2) @ ''/'' @ y"
proof -
  have ny: "CHR ''-'' \<notin> set y"
    using y digit_not_dash by (auto simp: list_all_iff)
  have nm: "CHR ''-'' \<notin> set [m1, m2]" and nd: "CHR ''-'' \<notin> set [d1, d2]"
    using m d digit_not_dash by auto
  have parts: "split_on (CHR ''-'') (iso_date y m1 m2 d1 d2) = [y, [m1, m2], [d1, d2]]"
    unfolding iso_date_def
    using split_on_piece [OF ny, of "[m1, m2] @ ''-'' @ [d1, d2]"]
      split_on_piece [OF nm, of "[d1, d2]"] split_on_single [OF nd]
    by simp
  have bm: "10 * digit_val m1 + digit_val m2 \<le> 99" and bd: "10 * digit_val d1 + digit_val d2 \<le> 99"
    using digit_val_le [OF m(1)] digit_val_le [OF m(2)] digit_val_le [OF d(1)] digit_val_le [OF d(2)]
    by auto
  have ne: "iso_date y m1 m2 d1 d2 \<noteq> []" by (simp add: iso_date_def)
  show ?thesis
    unfolding formatDateMDY_def
    using ne parts parseInt10_two_digits [OF m] parseInt10_two_digits [OF d]
      template_num_small [OF bm, of rt] template_num_small [OF bd, of rt]
    by (simp add: parseInt_arg_def Let_def element_Cons)
qed

lemma deriveCloseMonth_iso:
  assumes y: "list_all is_digit y"
    and m: "is_digit m1" "is_digit m2" and d: "is_digit d1" "is_digit d2"
  shows "deriveCloseMonth rt (Val (iso_date y m1 m2 d1 d2)) =
           dec (10 * digit_val m1 + digit_val m2) @ ''/1/'' @ y"
proof -
  have ny: "CHR ''-'' \<notin> set y"
    using y digit_not_dash by (auto simp: list_all_iff)
  have nm: "CHR ''-'' \<notin> set [m1, m2]" and nd: "CHR ''-'' \<notin> set [d1, d2]"
    using m d digit_not_dash by auto
  have parts: "split_on (CHR ''-'') (iso_date y m1 m2 d1 d2) = [y, [m1, m2], [d1, d2]]"
    unfolding iso_date_def
    using split_on_piece [OF ny, of "[m1, m2] @ ''-'' @ [d1, d2]"]
      split_on_piece [OF nm, of "[d1, d2]"] split_on_single [OF nd]
    by simp
  have bm: "10 * digit_val m1 + digit_val m2 \<le> 99"
    using digit_val_le [OF m(1)] digit_val_le [OF m(2)] by auto
  have ne: "iso_date y m1 m2 d1 d2 \<noteq> []" by (simp add: iso_date_def)
  show ?thesis
    unfolding deriveCloseMonth_def
    using ne parts parseInt10_two_digits [OF m] template_num_small [OF bm, of rt]
    by (simp add: parseInt_arg_def Let_def element_Cons)
qed

section \<open>The record transformer\<close>

lemma or_str_nullish: "nullish v \<Longrightarrow> or_str v d = d"
  by (cases v) (simp_all add: nullish_def or_str_def truthy_str_def)

text \<open>
  C6.  \<open>transformData\<close> is a total function of the raw records (no operation in it can throw
  on a record whose fields are of their documented type, \<^verbatim>\<open>null\<close> or absent).  It returns one
  output per input record, at the same position; every output has exactly the six keys
  \<open>output_keys\<close>, in that order, each bound to a string; a field that is null or absent gives
  the default of its column: \<^verbatim>\<open>"0"\<close> for \<open>Amount\<close>, the empty string for \<open>Close Date\<close>,
  \<open>Quote sent TImestamp 2\<close>, \<open>Stage\<close> and \<open>Close Month\<close>, and \<^verbatim>\<open>"Unknown"\<close> for
  \<open>Opportunity Owner\<close> when the owner or its name is null or absent.  A record with every
  field null gives exactly \<open>default_output\<close>.
\<close>

theorem transformData_total_shape:
  "length (transformData rt rs) = length rs
   \<and> (\<forall>i<length rs.
        map fst (transformData rt rs ! i) = output_keys
      \<and> dom (map_of (transformData rt rs ! i)) = set output_keys
      \<and> (nullish (Amount (rs ! i)) \<longrightarrow>
           map_of (transformData rt rs ! i) ''Amount'' = Some ''0'')
      \<and> (nullish (CloseDate (rs ! i)) \<longrightarrow>
           map_of (transformData rt rs ! i) ''Close Date'' = Some ''''
         \<and> map_of (transformData rt rs ! i) ''Close Month'' = Some '''')
      \<and> (nullish (Quote_sent_TImestamp_2__c (rs ! i)) \<longrightarrow>
           map_of (transformData rt rs ! i) ''Quote sent TImestamp 2'' = Some '''')
      \<and> (nullish (StageName (rs ! i)) \<longrightarrow>
           map_of (transformData rt rs ! i) ''Stage'' = Some '''')
      \<and> ((case Owner (rs ! i) of Val ow \<Rightarrow> nullish (Name ow) | _ \<Rightarrow> True) \<longrightarrow>
           map_of (transformData rt rs ! i) ''Opportunity Owner'' = Some ''Unknown''))
   \<and> (\<forall>r. Amount r = Null \<and> CloseDate r = Null \<and> Quote_sent_TImestamp_2__c r = Null
           \<and> StageName r = Null \<and> Owner r = Null \<longrightarrow>
         transformData rt [r] = [default_output])"
proof (intro conjI allI impI)
  show "length (transformData rt rs) = length rs"
    by (simp add: transformData_def)
next
  fix i assume i: "i < length rs"
  show "map fst (transformData rt rs ! i) = output_keys"
    using i by (simp add: transformData_def output_keys_def)
  then show "dom (map_of (transformData rt rs ! i)) = set output_keys"
    by (simp add: dom_map_of_conv_image_fst flip: set_map)
  show "map_of (transformData rt rs ! i) ''Amount'' = Some ''0''" if "nullish (Amount (rs ! i))"
    using i that by (cases "Amount (rs ! i)") (simp_all add: transformData_def nullish_def)
  show "map_of (transformData rt rs ! i) ''Close Date'' = Some ''''" if "nullish (CloseDate (rs ! i))"
    using i that
    by (cases "CloseDate (rs ! i)") (simp_all add: transformData_def nullish_def formatDateMDY_def)
  show "map_of (transformData rt rs ! i) ''Close Month'' = Some ''''" if "nullish (CloseDate (rs ! i))"
    using i that
    by (cases "CloseDate (rs ! i)") (simp_all add: transformData_def nullish_def deriveCloseMonth_def)
  show "map_of (transformData rt rs ! i) ''Quote sent TImestamp 2'' = Some ''''"
    if "nullish (Quote_sent_TImestamp_2__c (rs ! i))"
    using i that
    by (cases "Quote_sent_TImestamp_2__c (rs ! i)")
       (simp_all add: transformData_def nullish_def formatTimestamp_def)
  show "map_of (transformData rt rs ! i) ''Stage'' = Some ''''" if "nullish (StageName (rs ! i))"
    using i that by (simp add: transformData_def or_str_nullish)
  show "map_of (transformData rt rs ! i) ''Opportunity Owner'' = Some ''Unknown''"
    if "case Owner (rs ! i) of Val ow \<Rightarrow> nullish (Name ow) | _ \<Rightarrow> True"
  proof -
    have "nullish (owner_name (rs ! i))"
      using that by (cases "Owner (rs ! i)") (simp_all add: owner_name_def nullish_def)
    then show ?thesis using i by (simp add: transformData_def or_str_nullish)
  qed
next
  fix r :: "'a raw_record"
  assume "Amount r = Null \<and> CloseDate r = Null \<and> Quote_sent_TImestamp_2__c r = Null
           \<and> StageName r = Null \<and> Owner r = Null"
  then show "transformData rt [r] = [default_output]"
    by (simp add: transformData_def default_output_def formatDateMDY_def deriveCloseMonth_def
        formatTimestamp_def or_str_def truthy_str_def owner_name_def)
qed

text \<open>The theorem at a blank record followed by a complete one.\<close>

theorem transformData_total_shape_witness:
  "length (transformData sample_runtime [blank_record ''006A'', opportunity ''006B'']) = 2
   \<and> nullish (Amount ([blank_record ''006A'', opportunity ''006B''] ! 0))
   \<and> nullish (StageName ([blank_record ''006A'', opportunity ''006B''] ! 0))
   \<and> map_of (transformData sample_runtime [blank_record ''006A'', opportunity ''006B''] ! 0)
        ''Amount'' = Some ''0''
   \<and> map_of (transformData sample_runtime [blank_record ''006A'', opportunity ''006B''] ! 0)
        ''Stage'' = Some ''''
   \<and> map_of (transformData sample_runtime [blank_record ''006A'', opportunity ''006B''] ! 0)
        ''Opportunity Owner'' = Some ''Unknown''
   \<and> map fst (transformData sample_runtime [blank_record ''006A'', opportunity ''006B''] ! 1)
       = output_keys
   \<and> transformData sample_runtime [blank_record ''006A'', opportunity ''006B''] ! 1 =
       [(''Amount'', ''1500''), (''Close Date'', ''7/20/2023''),
        (''Quote sent TImestamp 2'', ''8/28/2023, 8:07 AM''), (''Stage'', ''Closed Won''),
        (''Opportunity Owner'', ''Ada''), (''Close Month'', ''7/1/2023'')]"
proof -
  let ?rs = "[blank_record ''006A'', opportunity ''006B'']"
  have blank: "nullish (Amount (?rs ! 0))" "nullish (StageName (?rs ! 0))"
    "case Owner (?rs ! 0) of Val ow \<Rightarrow> nullish (Name ow) | _ \<Rightarrow> True"
    by (simp_all add: blank_record_def nullish_def)
  have all: "\<forall>i<length ?rs.
        map fst (transformData sample_runtime ?rs ! i) = output_keys
      \<and> (nullish (Amount (?rs ! i)) \<longrightarrow>
           map_of (transformData sample_runtime ?rs ! i) ''Amount'' = Some ''0'')
      \<and> (nullish (StageName (?rs ! i)) \<longrightarrow>
           map_of (transformData sample_runtime ?rs ! i) ''Stage'' = Some '''')
      \<and> ((case Owner (?rs ! i) of Val ow \<Rightarrow> nullish (Name ow) | _ \<Rightarrow> True) \<longrightarrow>
           map_of (transformData sample_runtime ?rs ! i) ''Opportunity Owner'' = Some ''Unknown'')"
    and len: "length (transformData sample_runtime ?rs) = length ?rs"
    using transformData_total_shape [of sample_runtime ?rs] by blast+
  have at0: "map_of (transformData sample_runtime ?rs ! 0) ''Amount'' = Some ''0''"
    "map_of (transformData sample_runtime ?rs ! 0) ''Stage'' = Some ''''"
    "map_of (transformData sample_runtime ?rs ! 0) ''Opportunity Owner'' = Some ''Unknown''"
    using all blank by simp_all
  have at1: "map fst (transformData sample_runtime ?rs ! 1) = output_keys"
    using all by simp
  have complete: "transformData sample_runtime ?rs ! 1 =
       [(''Amount'', ''1500''), (''Close Date'', ''7/20/2023''),
        (''Quote sent TImestamp 2'', ''8/28/2023, 8:07 AM''), (''Stage'', ''Closed Won''),
        (''Opportunity Owner'', ''Ada''), (''Close Month'', ''7/1/2023'')]"
    by code_simp
  show ?thesis
    using len blank(1,2) at0 at1 complete by simp
qed

text \<open>
  C7.  In every output object of \<open>transformData\<close> the column \<open>Close Date\<close> is
  \<open>formatDateMDY\<close> and the column \<open>Close Month\<close> is \<open>deriveCloseMonth\<close> of the record's
  \<open>CloseDate\<close>.  For a \<open>CloseDate\<close> written \<^verbatim>\<open>YYYY-MM-DD\<close> (four digits, two digits, two digits)
  both functions split the text at \<^verbatim>\<open>-\<close> and nothing else: \<open>Close Date\<close> is the month and the
  day as decimal numbers without leading zero and the year as it stands, \<^verbatim>\<open>M/D/YYYY\<close>, and
  \<open>Close Month\<close> is \<^verbatim>\<open>M/1/YYYY\<close>, in whatever runtime: no date is built on the way, so no time
  zone enters.  A null or absent \<open>CloseDate\<close> gives the empty string in both columns, and
  \<^verbatim>\<open>2023-07-20\<close> gives \<^verbatim>\<open>7/20/2023\<close> and \<^verbatim>\<open>7/1/2023\<close>.
\<close>

theorem close_date_by_split:
  assumes "length y = 4" and "list_all is_digit y"
    and "is_digit m1" and "is_digit m2" and "is_digit d1" and "is_digit d2"
  shows "(\<forall>rs i. i < length rs \<longrightarrow>
            map_of (transformData rt rs ! i) ''Close Date'' =
              Some (formatDateMDY rt (CloseDate (rs ! i)))
          \<and> map_of (transformData rt rs ! i) ''Close Month'' =
              Some (deriveCloseMonth rt (CloseDate (rs ! i))))
       \<and> (\<forall>rs i. i < length rs \<and> CloseDate (rs ! i) = Val (iso_date y m1 m2 d1 d2) \<longrightarrow>
            map_of (transformData rt rs ! i) ''Close Date'' =
              Some (dec (10 * digit_val m1 + digit_val m2) @ ''/'' @
                    dec (10 * digit_val d1 + digit_val d2) @ ''/'' @ y)
          \<and> map_of (transformData rt rs ! i) ''Close Month'' =
              Some (dec (10 * digit_val m1 + digit_val m2) @ ''/1/'' @ y))
       \<and> (\<forall>rs i. i < length rs \<and> nullish (CloseDate (rs ! i)) \<longrightarrow>
            map_of (transformData rt rs ! i) ''Close Date'' = Some ''''
          \<and> map_of (transformData rt rs ! i) ''Close Month'' = Some '''')
       \<and> (\<forall>rs i. i < length rs \<and> CloseDate (rs ! i) = Val ''2023-07-20'' \<longrightarrow>
            map_of (transformData rt rs ! i) ''Close Date'' = Some ''7/20/2023''
          \<and> map_of (transformData rt rs ! i) ''Close Month'' = Some ''7/1/2023'')
       \<and> formatDateMDY rt (Val (iso_date y m1 m2 d1 d2)) =
           dec (10 * digit_val m1 + digit_val m2) @ ''/'' @
           dec (10 * digit_val d1 + digit_val d2) @ ''/'' @ y
       \<and> deriveCloseMonth rt (Val (iso_date y m1 m2 d1 d2)) =
           dec (10 * digit_val m1 + digit_val m2) @ ''/1/'' @ y
       \<and> (0 < 10 * digit_val m1 + digit_val m2 \<longrightarrow>
            hd (dec (10 * digit_val m1 + digit_val m2)) \<noteq> CHR ''0'')
       \<and> (0 < 10 * digit_val d1 + digit_val d2 \<longrightarrow>
            hd (dec (10 * digit_val d1 + digit_val d2)) \<noteq> CHR ''0'')
       \<and> formatDateMDY rt Null = '''' \<and> formatDateMDY rt Undefined = ''''
       \<and> deriveCloseMonth rt Null = '''' \<and> deriveCloseMonth rt Undefined = ''''
       \<and> formatDateMDY rt (Val ''2023-07-20'') = ''7/20/2023''
       \<and> deriveCloseMonth rt (Val ''2023-07-20'') = ''7/1/2023''"
proof -
  have general: "formatDateMDY rt (Val (iso_date y m1 m2 d1 d2)) =
           dec (10 * digit_val m1 + digit_val m2) @ ''/'' @
           dec (10 * digit_val d1 + digit_val d2) @ ''/'' @ y"
    "deriveCloseMonth rt (Val (iso_date y m1 m2 d1 d2)) =
           dec (10 * digit_val m1 + digit_val m2) @ ''/1/'' @ y"
    using assms(2-) by (rule formatDateMDY_iso, rule deriveCloseMonth_iso)
  have nulls: "formatDateMDY rt Null = ''''" "formatDateMDY rt Undefined = ''''"
    "deriveCloseMonth rt Null = ''''" "deriveCloseMonth rt Undefined = ''''"
    by (simp_all add: formatDateMDY_def deriveCloseMonth_def)
  have digits: "list_all is_digit ''2023''" "is_digit (CHR ''0'')" "is_digit (CHR ''7'')"
    "is_digit (CHR ''2'')"
    by (simp_all add: is_digit_def)
  have example: "formatDateMDY rt (Val ''2023-07-20'') = ''7/20/2023''"
    "deriveCloseMonth rt (Val ''2023-07-20'') = ''7/1/2023''"
    using formatDateMDY_iso [OF digits(1,2,3,4,2), of rt]
      deriveCloseMonth_iso [OF digits(1,2,3,4,2), of rt]
    by (simp_all add: iso_date_def digit_val_def dec.simps)
  have columns: "map_of (transformData rt rs ! i) ''Close Date'' =
        Some (formatDateMDY rt (CloseDate (rs ! i)))"
    "map_of (transformData rt rs ! i) ''Close Month'' =
        Some (deriveCloseMonth rt (CloseDate (rs ! i)))"
    if "i < length rs" for rs i
    using that by (simp_all add: transformData_def)
  have iso_columns: "map_of (transformData rt rs ! i) ''Close Date'' =
        Some (dec (10 * digit_val m1 + digit_val m2) @ ''/'' @
              dec (10 * digit_val d1 + digit_val d2) @ ''/'' @ y)
      \<and> map_of (transformData rt rs ! i) ''Close Month'' =
        Some (dec (10 * digit_val m1 + digit_val m2) @ ''/1/'' @ y)"
    if "i < length rs" and "CloseDate (rs ! i) = Val (iso_date y m1 m2 d1 d2)" for rs i
    using columns [OF that(1)] that(2) general by simp
  have null_columns: "map_of (transformData rt rs ! i) ''Close Date'' = Some ''''
      \<and> map_of (transformData rt rs ! i) ''Close Month'' = Some ''''"
    if "i < length rs" and "nullish (CloseDate (rs ! i))" for rs i
    using columns [OF that(1)] that(2) nulls
    by (cases "CloseDate (rs ! i)") (simp_all add: nullish_def)
  have example_columns: "map_of (transformData rt rs ! i) ''Close Date'' = Some ''7/20/2023''
      \<and> map_of (transformData rt rs ! i) ''Close Month'' = Some ''7/1/2023''"
    if "i < length rs" and "CloseDate (rs ! i) = Val ''2023-07-20''" for rs i
    using columns [OF that(1)] that(2) example by simp
  have no_zero: "0 < 10 * digit_val m1 + digit_val m2 \<longrightarrow>
        hd (dec (10 * digit_val m1 + digit_val m2)) \<noteq> CHR ''0''"
    "0 < 10 * digit_val d1 + digit_val d2 \<longrightarrow>
        hd (dec (10 * digit_val d1 + digit_val d2)) \<noteq> CHR ''0''"
    using dec_no_leading_zero by simp_all
  have c1: "\<forall>rs i. i < length rs \<longrightarrow>
            map_of (transformData rt rs ! i) ''Close Date'' =
              Some (formatDateMDY rt (CloseDate (rs ! i)))
          \<and> map_of (transformData rt rs ! i) ''Close Month'' =
              Some (deriveCloseMonth rt (CloseDate (rs ! i)))"
    using columns by blast
  have c2: "\<forall>rs i. i < length rs \<and> CloseDate (rs ! i) = Val (iso_date y m1 m2 d1 d2) \<longrightarrow>
            map_of (transformData rt rs ! i) ''Close Date'' =
              Some (dec (10 * digit_val m1 + digit_val m2) @ ''/'' @
                    dec (10 * digit_val d1 + digit_val d2) @ ''/'' @ y)
          \<and> map_of (transformData rt rs ! i) ''Close Month'' =
              Some (dec (10 * digit_val m1 + digit_val m2) @ ''/1/'' @ y)"
    using iso_columns by blast
  have c3: "\<forall>rs i. i < length rs \<and> nullish (CloseDate (rs ! i)) \<longrightarrow>
            map_of (transformData rt rs ! i) ''Close Date'' = Some ''''
          \<and> map_of (transformData rt rs ! i) ''Close Month'' = Some ''''"
    using null_columns by blast
  have c4: "\<forall>rs i. i < length rs \<and> CloseDate (rs ! i) = Val ''2023-07-20'' \<longrightarrow>
            map_of (transformData rt rs ! i) ''Close Date'' = Some ''7/20/2023''
          \<and> map_of (transformData rt rs ! i) ''Close Month'' = Some ''7/1/2023''"
    using example_columns by blast
  show ?thesis
    by (intro conjI c1 c2 c3 c4 general nulls example no_zero)
qed

text \<open>The theorem at \<^verbatim>\<open>2024-12-05\<close>, for a record with that \<open>CloseDate\<close> after a blank one.\<close>

theorem close_date_by_split_witness:
  "length ''2024'' = 4 \<and> list_all is_digit ''2024'' \<and> is_digit (CHR ''1'') \<and> is_digit (CHR ''2'')
   \<and> is_digit (CHR ''0'') \<and> is_digit (CHR ''5'')
   \<and> 0 < 10 * digit_val (CHR ''1'') + digit_val (CHR ''2'')
   \<and> 0 < 10 * digit_val (CHR ''0'') + digit_val (CHR ''5'')
   \<and> nullish (CloseDate ([blank_record ''006A'', closing_on ''2024-12-05''] ! 0))
   \<and> CloseDate ([blank_record ''006A'', closing_on ''2024-12-05''] ! 1) = Val ''2024-12-05''
   \<and> transformData sample_runtime [blank_record ''006A'', closing_on ''2024-12-05''] ! 0 =
        default_output
   \<and> map_of (transformData sample_runtime [blank_record ''006A'', closing_on ''2024-12-05''] ! 0)
        ''Close Date'' = Some ''''
   \<and> map_of (transformData sample_runtime [blank_record ''006A'', closing_on ''2024-12-05''] ! 0)
        ''Close Month'' = Some ''''
   \<and> map_of (transformData sample_runtime [blank_record ''006A'', closing_on ''2024-12-05''] ! 1)
        ''Close Date'' = Some ''12/5/2024''
   \<and> map_of (transformData sample_runtime [blank_record ''006A'', closing_on ''2024-12-05''] ! 1)
        ''Close Month'' = Some ''12/1/2024''
   \<and> map_of (transformData sample_runtime [closing_on ''2023-07-20''] ! 0)
        ''Close Date'' = Some ''7/20/2023''
   \<and> map_of (transformData sample_runtime [closing_on ''2023-07-20''] ! 0)
        ''Close Month'' = Some ''7/1/2023''
   \<and> formatDateMDY sample_runtime (Val ''2024-12-05'') = ''12/5/2024''
   \<and> deriveCloseMonth sample_runtime (Val ''2024-12-05'') = ''12/1/2024''
   \<and> hd (dec (10 * digit_val (CHR ''1'') + digit_val (CHR ''2''))) \<noteq> CHR ''0''
   \<and> hd (dec (10 * digit_val (CHR ''0'') + digit_val (CHR ''5''))) \<noteq> CHR ''0''"
proof -
  let ?rs = "[blank_record ''006A'', closing_on ''2024-12-05'']"
  let ?one = "[closing_on ''2023-07-20'']"
  let ?M = "10 * digit_val (CHR ''1'') + digit_val (CHR ''2'')"
  let ?D = "10 * digit_val (CHR ''0'') + digit_val (CHR ''5'')"
  have h: "length ''2024'' = 4" "list_all is_digit ''2024''" "is_digit (CHR ''1'')"
    "is_digit (CHR ''2'')" "is_digit (CHR ''0'')" "is_digit (CHR ''5'')"
    by (simp_all add: is_digit_def)
  have pos: "0 < ?M" "0 < ?D"
    by (simp_all add: digit_val_def)
  have iso: "iso_date ''2024'' (CHR ''1'') (CHR ''2'') (CHR ''0'') (CHR ''5'') = ''2024-12-05''"
    by (simp add: iso_date_def)
  have md: "dec ?M = ''12''" "dec ?D = ''5''"
    by (simp_all add: digit_val_def dec.simps)
  have at0: "0 < length ?rs" "nullish (CloseDate (?rs ! 0))"
    by (simp_all add: blank_record_def nullish_def)
  have at1: "1 < length ?rs" "CloseDate (?rs ! 1) = Val ''2024-12-05''"
    by (simp_all add: closing_on_def opportunity_def)
  have one: "0 < length ?one" "CloseDate (?one ! 0) = Val ''2023-07-20''"
    by (simp_all add: closing_on_def opportunity_def)
  note t = close_date_by_split [OF h, of sample_runtime]
  have blank: "map_of (transformData sample_runtime ?rs ! 0) ''Close Date'' = Some ''''"
    "map_of (transformData sample_runtime ?rs ! 0) ''Close Month'' = Some ''''"
    using t at0 by blast+
  have dated: "map_of (transformData sample_runtime ?rs ! 1) ''Close Date'' =
        Some (dec ?M @ ''/'' @ dec ?D @ ''/'' @ ''2024'')"
    "map_of (transformData sample_runtime ?rs ! 1) ''Close Month'' =
        Some (dec ?M @ ''/1/'' @ ''2024'')"
    using t at1 unfolding iso by blast+
  have sample: "map_of (transformData sample_runtime ?one ! 0) ''Close Date'' = Some ''7/20/2023''"
    "map_of (transformData sample_runtime ?one ! 0) ''Close Month'' = Some ''7/1/2023''"
    using t one by blast+
  have fns: "formatDateMDY sample_runtime (Val ''2024-12-05'') = dec ?M @ ''/'' @ dec ?D @ ''/'' @ ''2024''"
    "deriveCloseMonth sample_runtime (Val ''2024-12-05'') = dec ?M @ ''/1/'' @ ''2024''"
    using t unfolding iso by blast+
  have nz: "hd (dec ?M) \<noteq> CHR ''0''" "hd (dec ?D) \<noteq> CHR ''0''"
    using t pos by blast+
  have whole: "transformData sample_runtime ?rs ! 0 = default_output"
    by code_simp
  show ?thesis
    using h pos at0(2) at1(2) whole blank dated sample fns nz unfolding md by simp
qed

text \<open>
  C10.  When the owner object is there and its \<open>Name\<close> is the empty string, the output's
  \<open>Opportunity Owner\<close> is \<^verbatim>\<open>"Unknown"\<close>, in \<^verbatim>\<open>api/salesforce.js\<close> and in \<^verbatim>\<open>server.js\<close> alike:
  \<^verbatim>\<open>||\<close> replaces every falsy name, not only a null or absent one.
\<close>

theorem empty_owner_name_is_unknown:
  assumes "i < length rs" and "Owner (rs ! i) = Val ow" and "Name ow = Val ''''"
  shows "map_of (transformData rt rs ! i) ''Opportunity Owner'' = Some ''Unknown''
       \<and> map_of (server_transform rt rs ! i) ''Opportunity Owner'' = Some ''Unknown''"
  using assms
  by (simp add: transformData_def server_transform_def owner_name_def or_str_def truthy_str_def)

text \<open>The theorem at one opportunity whose owner has the empty name.\<close>

theorem empty_owner_name_is_unknown_witness:
  "0 < length [opportunity ''006A'' \<lparr> Owner := Val \<lparr> Name = Val '''' \<rparr> \<rparr>]
   \<and> Owner ([opportunity ''006A'' \<lparr> Owner := Val \<lparr> Name = Val '''' \<rparr> \<rparr>] ! 0) = Val \<lparr> Name = Val '''' \<rparr>
   \<and> Name \<lparr> Name = Val '''' \<rparr> = Val ''''
   \<and> map_of (transformData sample_runtime [opportunity ''006A'' \<lparr> Owner := Val \<lparr> Name = Val '''' \<rparr> \<rparr>] ! 0)
        ''Opportunity Owner'' = Some ''Unknown''
   \<and> map_of (server_transform sample_runtime [opportunity ''006A'' \<lparr> Owner := Val \<lparr> Name = Val '''' \<rparr> \<rparr>] ! 0)
        ''Opportunity Owner'' = Some ''Unknown''"
  using empty_owner_name_is_unknown [of 0 "[opportunity ''006A'' \<lparr> Owner := Val \<lparr> Name = Val '''' \<rparr> \<rparr>]"
      "\<lparr> Name = Val '''' \<rparr>" sample_runtime]
  by (simp add: opportunity_def)

section \<open>The pagination loop\<close>

lemma truthy_template: "truthy_str v \<Longrightarrow> template_str v \<noteq> []"
  by (cases v) (auto simp: truthy_str_def template_str_def)

lemma json_or_empty_reads [simp]:
  "is_null (json_or_empty b) = is_null b"
  "first_message (json_or_empty b) = first_message b"
  "body_error_description (json_or_empty b) = body_error_description b"
  by (cases b; simp add: json_or_empty_def is_null_def first_message_def
        body_error_description_def empty_object_def)+

lemma query_loop_advance:
  assumes "u \<noteq> []" and "continuing (net (length issued))"
  shows "query_loop net inst tok (Val u) acc issued =
         query_loop net inst tok (Val (inst @ template_str (continuation (net (length issued)))))
           (acc @ page_records (net (length issued))) (issued @ [page_request tok u])"
proof -
  obtain resp where r: "net (length issued) = Resolved resp"
    using assms(2) by (cases "net (length issued)") (auto simp: continuing_def success_page_def)
  have a: "ok resp" "\<not> not_json (body resp)" "\<not> is_null (body resp)"
    "truthy_str (body_nextRecordsUrl (body resp))"
    using assms(2) r by (auto simp: continuing_def success_page_def continuation_def)
  show ?thesis
    using assms(1) r a
    by (subst query_loop.simps)
       (simp add: falsy_str_def truthy_str_def template_str_def fetch_def page_records_def
          continuation_def Let_def)
qed

lemma request_url_nonempty:
  assumes "u \<noteq> []" and "\<forall>i<k. continuing (net (n + i))"
  shows "request_url net inst u n k \<noteq> []"
proof (cases k)
  case 0
  then show ?thesis using assms(1) by (simp add: request_url_def)
next
  case (Suc j)
  then have "continuing (net (n + j))" using assms(2) by simp
  then have "template_str (continuation (net (n + j))) \<noteq> []"
    by (simp add: continuing_def truthy_template)
  then show ?thesis using Suc by (simp add: request_url_def)
qed

lemma query_loop_run:
  assumes "u \<noteq> []" and "\<forall>i<k. continuing (net (length issued + i))"
  shows "query_loop net inst tok (Val u) acc issued =
         query_loop net inst tok (Val (request_url net inst u (length issued) k))
           (acc @ records_upto net (length issued) k)
           (issued @ requests_upto net inst tok u (length issued) k)"
  using assms(2)
proof (induction k)
  case 0
  show ?case by (simp add: request_url_def records_upto_def requests_upto_def)
next
  case (Suc k)
  let ?n = "length issued"
  let ?uk = "request_url net inst u ?n k"
  let ?issued_k = "issued @ requests_upto net inst tok u ?n k"
  have before: "\<forall>i<k. continuing (net (?n + i))" using Suc.prems by simp
  have len: "length ?issued_k = ?n + k" by (simp add: requests_upto_def)
  have here: "continuing (net (length ?issued_k))" using Suc.prems len by simp
  have ne: "?uk \<noteq> []" using request_url_nonempty [OF assms(1) before] .
  have "query_loop net inst tok (Val u) acc issued =
        query_loop net inst tok (Val ?uk) (acc @ records_upto net ?n k) ?issued_k"
    using Suc.IH before by simp
  also have "\<dots> = query_loop net inst tok
                     (Val (inst @ template_str (continuation (net (length ?issued_k)))))
                     ((acc @ records_upto net ?n k) @ page_records (net (length ?issued_k)))
                     (?issued_k @ [page_request tok ?uk])"
    using query_loop_advance [where net = net and issued = "?issued_k", OF ne here] .
  also have "\<dots> = query_loop net inst tok (Val (request_url net inst u ?n (Suc k)))
                     (acc @ records_upto net ?n (Suc k))
                     (issued @ requests_upto net inst tok u ?n (Suc k))"
    by (simp add: len request_url_def records_upto_def requests_upto_def)
  finally show ?case .
qed

lemma query_loop_last_page:
  assumes "u \<noteq> []" and "success_page (net (length issued))"
    and "falsy_str (continuation (net (length issued)))"
  shows "query_loop net inst tok (Val u) acc issued =
         Some (Inr (acc @ page_records (net (length issued))), issued @ [page_request tok u])"
proof -
  obtain resp where r: "net (length issued) = Resolved resp"
    using assms(2) by (cases "net (length issued)") (auto simp: success_page_def)
  have a: "ok resp" "\<not> not_json (body resp)" "\<not> is_null (body resp)"
    "\<not> truthy_str (body_nextRecordsUrl (body resp))"
    using assms(2,3) r by (auto simp: success_page_def continuation_def falsy_str_def)
  have stop: "query_loop net inst tok Null xs ys = Some (Inr xs, ys)" for xs ys
    by (subst query_loop.simps) (simp add: falsy_str_def truthy_str_def)
  show ?thesis
    using assms(1) r a
    by (subst query_loop.simps)
       (simp add: stop falsy_str_def truthy_str_def template_str_def fetch_def page_records_def
          Let_def)
qed

lemma query_loop_not_ok:
  assumes "u \<noteq> []" and "net (length issued) = Resolved resp" and "\<not> ok resp"
    and "\<not> is_null (body resp)"
  shows "query_loop net inst tok (Val u) acc issued =
         Some (Inl (Thrown \<lparr> err_message = or_str (first_message (body resp)) ''Failed to query Salesforce'',
                              err_code = ''QUERY_ERROR'', err_status = status resp \<rparr>),
               issued @ [page_request tok u])"
  using assms
  by (subst query_loop.simps)
     (simp add: falsy_str_def truthy_str_def template_str_def fetch_def Let_def)

lemma query_loop_null_error:
  assumes "u \<noteq> []" and "net (length issued) = Resolved resp" and "\<not> ok resp"
    and "is_null (body resp)"
  shows "query_loop net inst tok (Val u) acc issued =
         Some (Inl (Raised NullPropertyRead), issued @ [page_request tok u])"
  using assms
  by (subst query_loop.simps)
     (simp add: falsy_str_def truthy_str_def template_str_def fetch_def Let_def)

lemma query_loop_rejected:
  assumes "u \<noteq> []" and "net (length issued) = Rejected"
  shows "query_loop net inst tok (Val u) acc issued =
         Some (Inl (Raised FetchRejected), issued @ [page_request tok u])"
  using assms
  by (subst query_loop.simps)
     (simp add: falsy_str_def truthy_str_def template_str_def fetch_def)

lemma query_loop_not_json:
  assumes "u \<noteq> []" and "net (length issued) = Resolved resp" and "ok resp"
    and "not_json (body resp)"
  shows "query_loop net inst tok (Val u) acc issued =
         Some (Inl (Raised JsonSyntaxError), issued @ [page_request tok u])"
  using assms
  by (subst query_loop.simps)
     (simp add: falsy_str_def truthy_str_def template_str_def fetch_def)

lemma query_loop_null_page:
  assumes "u \<noteq> []" and "net (length issued) = Resolved resp" and "ok resp"
    and "\<not> not_json (body resp)" and "is_null (body resp)"
  shows "query_loop net inst tok (Val u) acc issued =
         Some (Inl (Raised NullPropertyRead), issued @ [page_request tok u])"
  using assms
  by (subst query_loop.simps)
     (simp add: falsy_str_def truthy_str_def template_str_def fetch_def Let_def)

lemma query_loop_stops:
  assumes "u \<noteq> []" and "\<not> continuing (net (length issued))"
  shows "\<exists>res. query_loop net inst tok (Val u) acc issued = Some (res, issued @ [page_request tok u])"
proof (cases "net (length issued)")
  case Rejected
  then show ?thesis using query_loop_rejected [where net = net and issued = issued, OF assms(1)] by blast
next
  case (Resolved resp)
  show ?thesis
  proof (cases "ok resp")
    case False
    show ?thesis
    proof (cases "is_null (body resp)")
      case True
      then show ?thesis
        using query_loop_null_error [where net = net and issued = issued, OF assms(1) Resolved False]
        by blast
    next
      case False
      then show ?thesis
        using query_loop_not_ok [where net = net and issued = issued, OF assms(1) Resolved \<open>\<not> ok resp\<close>]
        by blast
    qed
  next
    case True
    show ?thesis
    proof (cases "not_json (body resp)")
      case True
      then show ?thesis
        using query_loop_not_json [where net = net and issued = issued, OF assms(1) Resolved \<open>ok resp\<close>]
        by blast
    next
      case False
      show ?thesis
      proof (cases "is_null (body resp)")
        case True
        then show ?thesis
          using query_loop_null_page [where net = net and issued = issued,
              OF assms(1) Resolved \<open>ok resp\<close> \<open>\<not> not_json (body resp)\<close>]
          by blast
      next
        case False
        then have "success_page (net (length issued))"
          using Resolved \<open>ok resp\<close> \<open>\<not> not_json (body resp)\<close> by (simp add: success_page_def)
        moreover from this have "falsy_str (continuation (net (length issued)))"
          using assms(2) by (simp add: continuing_def falsy_str_def)
        ultimately show ?thesis
          using query_loop_last_page [where net = net and issued = issued, OF assms(1)] by blast
      qed
    qed
  qed
qed

lemma query_loop_never:
  assumes "query_loop net inst tok nextUrl acc issued = Some y"
  shows "truthy_str nextUrl \<longrightarrow> (\<exists>i. \<not> continuing (net (length issued + i)))"
  using assms
proof (induction rule: query_loop.raw_induct [rotated 1, consumes 1])
  case (1 f net inst tok nextUrl acc issued y)
  show ?case
  proof (intro impI)
    assume t: "truthy_str nextUrl"
    show "\<exists>i. \<not> continuing (net (length issued + i))"
    proof (cases "continuing (net (length issued))")
      case False
      then have "\<not> continuing (net (length issued + 0))" by simp
      then show ?thesis by blast
    next
      case True
      then obtain resp where r: "net (length issued) = Resolved resp"
        by (cases "net (length issued)") (auto simp: continuing_def success_page_def)
      have a: "ok resp" "\<not> not_json (body resp)" "\<not> is_null (body resp)"
        "truthy_str (body_nextRecordsUrl (body resp))"
        using True r by (auto simp: continuing_def success_page_def continuation_def)
      from 1(2) t r a obtain acc' where
        "f net inst tok (Val (inst @ template_str (body_nextRecordsUrl (body resp)))) acc'
           (issued @ [page_request tok (template_str nextUrl)]) = Some y"
        by (auto simp: falsy_str_def fetch_def Let_def)
      from 1(1) [OF this] a(4) obtain i where
        "\<not> continuing (net (length (issued @ [page_request tok (template_str nextUrl)]) + i))"
        by (cases "body_nextRecordsUrl (body resp)") (auto simp: truthy_str_def template_str_def)
      then have "\<not> continuing (net (length issued + Suc i))" by simp
      then show ?thesis by blast
    qed
  qed
qed

lemma queryUrl_nonempty: "queryUrl inst \<noteq> []"
  by (simp add: queryUrl_def)

lemma querySalesforce_loop:
  assumes "truthy_str (SF_INSTANCE_URL e)"
  shows "querySalesforce e net tok issued =
         query_loop net (template_str (SF_INSTANCE_URL e)) tok
           (Val (queryUrl (template_str (SF_INSTANCE_URL e)))) [] issued"
  using assms by (simp add: querySalesforce_def falsy_str_def)

lemma query_loop_first_stop:
  assumes "u \<noteq> []" and "\<forall>i<k. continuing (net (length issued + i))"
    and "\<not> continuing (net (length issued + k))"
  shows "\<exists>res. query_loop net inst tok (Val u) acc issued =
           Some (res, issued @ requests_upto net inst tok u (length issued) (Suc k))"
proof -
  let ?n = "length issued"
  let ?issued_k = "issued @ requests_upto net inst tok u ?n k"
  have len: "length ?issued_k = ?n + k" by (simp add: requests_upto_def)
  have ne: "request_url net inst u ?n k \<noteq> []"
    using request_url_nonempty [OF assms(1,2)] .
  have stop: "\<not> continuing (net (length ?issued_k))" using assms(3) len by simp
  obtain res where
    "query_loop net inst tok (Val (request_url net inst u ?n k)) (acc @ records_upto net ?n k) ?issued_k
       = Some (res, ?issued_k @ [page_request tok (request_url net inst u ?n k)])"
    using query_loop_stops [where net = net and issued = ?issued_k, OF ne stop] by blast
  then have "query_loop net inst tok (Val u) acc issued =
       Some (res, ?issued_k @ [page_request tok (request_url net inst u ?n k)])"
    using query_loop_run [OF assms(1,2)] by simp
  then show ?thesis by (simp add: requests_upto_def)
qed

lemma query_loop_diverges_iff:
  assumes "u \<noteq> []"
  shows "(query_loop net inst tok (Val u) acc issued = None) =
         (\<forall>i. continuing (net (length issued + i)))"
proof
  assume none: "query_loop net inst tok (Val u) acc issued = None"
  show "\<forall>i. continuing (net (length issued + i))"
  proof (rule ccontr)
    assume "\<not> (\<forall>i. continuing (net (length issued + i)))"
    then have ex: "\<exists>i. \<not> continuing (net (length issued + i))" by simp
    define k where "k = (LEAST i. \<not> continuing (net (length issued + i)))"
    have stop: "\<not> continuing (net (length issued + k))"
      unfolding k_def using ex by (rule LeastI_ex)
    have before: "\<forall>i<k. continuing (net (length issued + i))"
      unfolding k_def using not_less_Least by blast
    from query_loop_first_stop [where inst = inst and tok = tok and acc = acc, OF assms before stop] none
    show False by auto
  qed
next
  assume all: "\<forall>i. continuing (net (length issued + i))"
  show "query_loop net inst tok (Val u) acc issued = None"
  proof (cases "query_loop net inst tok (Val u) acc issued")
    case None
    then show ?thesis .
  next
    case (Some y)
    from query_loop_never [OF Some] assms all show ?thesis
      by (simp add: truthy_str_def)
  qed
qed

lemma query_loop_pages:
  assumes "u \<noteq> []"
    and "\<forall>i<k. continuing (net (length issued + i))"
    and "success_page (net (length issued + k))"
    and "falsy_str (continuation (net (length issued + k)))"
  shows "query_loop net inst tok (Val u) acc issued =
           Some (Inr (acc @ records_upto net (length issued) (Suc k)),
                 issued @ requests_upto net inst tok u (length issued) (Suc k))"
proof -
  let ?n = "length issued"
  let ?issued_k = "issued @ requests_upto net inst tok u ?n k"
  have len: "length ?issued_k = ?n + k" by (simp add: requests_upto_def)
  have ne: "request_url net inst u ?n k \<noteq> []"
    using request_url_nonempty [OF assms(1,2)] .
  have "query_loop net inst tok (Val u) acc issued =
        query_loop net inst tok (Val (request_url net inst u ?n k))
          (acc @ records_upto net ?n k) ?issued_k"
    by (rule query_loop_run [OF assms(1,2)])
  also have "\<dots> = Some (Inr ((acc @ records_upto net ?n k) @ page_records (net (length ?issued_k))),
                         ?issued_k @ [page_request tok (request_url net inst u ?n k)])"
    using query_loop_last_page [where net = net and issued = ?issued_k and inst = inst and tok = tok
          and acc = "acc @ records_upto net ?n k", OF ne] assms(3,4) len
    by simp
  finally show ?thesis
    by (simp add: len records_upto_def requests_upto_def)
qed

lemma query_loop_failed_page:
  assumes "u \<noteq> []"
    and "\<forall>i<k. continuing (net (length issued + i))"
    and "net (length issued + k) = Resolved resp"
    and "\<not> ok resp"
    and "\<not> is_null (body resp)"
  shows "query_loop net inst tok (Val u) acc issued =
           Some (Inl (Thrown \<lparr> err_message = or_str (first_message (body resp))
                                                 ''Failed to query Salesforce'',
                                err_code = ''QUERY_ERROR'',
                                err_status = status resp \<rparr>),
                 issued @ requests_upto net inst tok u (length issued) (Suc k))"
proof -
  let ?n = "length issued"
  let ?issued_k = "issued @ requests_upto net inst tok u ?n k"
  have len: "length ?issued_k = ?n + k" by (simp add: requests_upto_def)
  have ne: "request_url net inst u ?n k \<noteq> []"
    using request_url_nonempty [OF assms(1,2)] .
  have here: "net (length ?issued_k) = Resolved resp" using assms(3) len by simp
  have "query_loop net inst tok (Val u) acc issued =
        query_loop net inst tok (Val (request_url net inst u ?n k))
          (acc @ records_upto net ?n k) ?issued_k"
    by (rule query_loop_run [OF assms(1,2)])
  also have "\<dots> = Some (Inl (Thrown \<lparr> err_message = or_str (first_message (body resp))
                                                 ''Failed to query Salesforce'',
                                err_code = ''QUERY_ERROR'',
                                err_status = status resp \<rparr>),
                         ?issued_k @ [page_request tok (request_url net inst u ?n k)])"
    using query_loop_not_ok [where net = net and issued = ?issued_k and inst = inst and tok = tok
          and acc = "acc @ records_upto net ?n k", OF ne here assms(4,5)] .
  finally show ?thesis
    by (simp add: requests_upto_def)
qed

text \<open>
  C2, as the code has it.  When the instance URL is configured, the first \<open>k\<close> answers are
  successful pages with a truthy continuation and answer \<open>k\<close> is a successful page whose
  \<^verbatim>\<open>nextRecordsUrl\<close> is absent, null or the empty string, \<open>querySalesforce\<close> returns the records
  of the pages 0 to \<open>k\<close> concatenated in request order (a page without \<^verbatim>\<open>records\<close> counting as
  empty) and has issued exactly the \<open>k + 1\<close> page requests: the loop ends at the first page
  whose continuation is falsy.  Pages of two, two and one records give five records in
  their order.
\<close>

theorem pagination_concatenates_pages:
  assumes "truthy_str (SF_INSTANCE_URL e)"
    and "\<forall>i<k. success_page (net (length issued + i))
             \<and> truthy_str (continuation (net (length issued + i)))"
    and "success_page (net (length issued + k))"
    and "falsy_str (continuation (net (length issued + k)))"
  shows "querySalesforce e net tok issued =
           Some (Inr (records_upto net (length issued) (Suc k)),
                 issued @ requests_upto net (template_str (SF_INSTANCE_URL e)) tok
                            (queryUrl (template_str (SF_INSTANCE_URL e))) (length issued) (Suc k))"
proof -
  let ?inst = "template_str (SF_INSTANCE_URL e)"
  have before: "\<forall>i<k. continuing (net (length issued + i))"
    using assms(2) by (simp add: continuing_def)
  have "querySalesforce e net tok issued =
        query_loop net ?inst tok (Val (queryUrl ?inst)) [] issued"
    by (rule querySalesforce_loop [OF assms(1)])
  also have "\<dots> = Some (Inr ([] @ records_upto net (length issued) (Suc k)),
                         issued @ requests_upto net ?inst tok (queryUrl ?inst) (length issued) (Suc k))"
    by (rule query_loop_pages [OF queryUrl_nonempty before assms(3,4)])
  finally show ?thesis by simp
qed

text \<open>The theorem at three pages of two, two and one records.\<close>

theorem pagination_concatenates_pages_witness:
  "truthy_str (SF_INSTANCE_URL sample_env)
   \<and> success_page (three_pages 0) \<and> truthy_str (continuation (three_pages 0))
   \<and> success_page (three_pages 1) \<and> truthy_str (continuation (three_pages 1))
   \<and> success_page (three_pages 2) \<and> falsy_str (continuation (three_pages 2))
   \<and> map (length \<circ> page_records \<circ> three_pages) [0, 1, 2] = [2, 2, 1]
   \<and> querySalesforce sample_env three_pages (Val ''00Dtoken'') [] =
       Some (Inr [opportunity ''A1'', opportunity ''A2'', opportunity ''B1'', opportunity ''B2'',
                  opportunity ''C1''],
             [page_request (Val ''00Dtoken'') (queryUrl ''https://acme.my.salesforce.com''),
              page_request (Val ''00Dtoken'')
                ''https://acme.my.salesforce.com/services/data/v59.0/query/01gRO-2000'',
              page_request (Val ''00Dtoken'')
                ''https://acme.my.salesforce.com/services/data/v59.0/query/01gRO-4000''])"
proof -
  have inst: "truthy_str (SF_INSTANCE_URL sample_env)"
    by (simp add: sample_env_def truthy_str_def)
  have p0: "success_page (three_pages 0)" "truthy_str (continuation (three_pages 0))"
    and p1: "success_page (three_pages 1)" "truthy_str (continuation (three_pages 1))"
    and p2: "success_page (three_pages 2)" "falsy_str (continuation (three_pages 2))"
    by code_simp+
  have sizes: "map (length \<circ> page_records \<circ> three_pages) [0, 1, 2] = [2, 2, 1]"
    by code_simp
  have before: "\<forall>i<2. success_page (three_pages (length ([] :: request list) + i))
                  \<and> truthy_str (continuation (three_pages (length ([] :: request list) + i)))"
    using p0 p1 by (auto dest!: less_2_cases)
  have recs: "records_upto three_pages 0 (Suc 2) =
       [opportunity ''A1'', opportunity ''A2'', opportunity ''B1'', opportunity ''B2'',
        opportunity ''C1'']"
    by code_simp
  have reqs: "requests_upto three_pages (template_str (SF_INSTANCE_URL sample_env)) (Val ''00Dtoken'')
          (queryUrl (template_str (SF_INSTANCE_URL sample_env))) 0 (Suc 2) =
       [page_request (Val ''00Dtoken'') (queryUrl ''https://acme.my.salesforce.com''),
        page_request (Val ''00Dtoken'')
          ''https://acme.my.salesforce.com/services/data/v59.0/query/01gRO-2000'',
        page_request (Val ''00Dtoken'')
          ''https://acme.my.salesforce.com/services/data/v59.0/query/01gRO-4000'']"
    by code_simp
  have "querySalesforce sample_env three_pages (Val ''00Dtoken'') [] =
       Some (Inr (records_upto three_pages (length ([] :: request list)) (Suc 2)),
             [] @ requests_upto three_pages (template_str (SF_INSTANCE_URL sample_env)) (Val ''00Dtoken'')
                    (queryUrl (template_str (SF_INSTANCE_URL sample_env)))
                    (length ([] :: request list)) (Suc 2))"
    using p2 by (intro pagination_concatenates_pages [OF inst before]) (simp_all add: numeral_2_eq_2)
  then show ?thesis
    using inst p0 p1 p2 sizes recs reqs by simp
qed

text \<open>
  C2 as it is written fails where a page carries the continuation field with the empty
  string: answer 0 of \<open>empty_cursor_pages\<close> does not omit \<^verbatim>\<open>nextRecordsUrl\<close>, answer 1 is the
  first that does, and still the run ends after answer 0, with its records only.
\<close>

theorem empty_continuation_cuts_result:
  "continuation (empty_cursor_pages 0) = Val ''''
   \<and> continuation (empty_cursor_pages 1) = Undefined
   \<and> page_records (empty_cursor_pages 1) = [opportunity ''B1'']
   \<and> querySalesforce sample_env empty_cursor_pages (Val ''00Dtoken'') [] =
       Some (Inr [opportunity ''A1''],
             [page_request (Val ''00Dtoken'') (queryUrl ''https://acme.my.salesforce.com'')])"
  by code_simp

text \<open>
  A failed page whose body is not the JSON literal \<^verbatim>\<open>null\<close>.  When the run reaches a page
  request whose response has a status outside 200 to 299 (every earlier answer being a
  page the loop goes on after) and the body of that response is anything but \<^verbatim>\<open>null\<close>, not
  JSON at all included, \<open>querySalesforce\<close> throws: the error has the code \<^verbatim>\<open>QUERY_ERROR\<close> and
  the status of that response, its message is the \<^verbatim>\<open>message\<close> of the first element of the
  error array when there is one; nothing of the records gathered so far is returned, and
  the failed request is the last one issued.
\<close>

theorem failed_page_raises_query_error:
  assumes "truthy_str (SF_INSTANCE_URL e)"
    and "\<forall>i<k. continuing (net (length issued + i))"
    and "net (length issued + k) = Resolved resp"
    and "\<not> ok resp"
    and "\<not> is_null (body resp)"
  shows "querySalesforce e net tok issued =
           Some (Inl (Thrown \<lparr> err_message = or_str (first_message (body resp))
                                                 ''Failed to query Salesforce'',
                                err_code = ''QUERY_ERROR'',
                                err_status = status resp \<rparr>),
                 issued @ requests_upto net (template_str (SF_INSTANCE_URL e)) tok
                            (queryUrl (template_str (SF_INSTANCE_URL e))) (length issued) (Suc k))"
proof -
  let ?inst = "template_str (SF_INSTANCE_URL e)"
  have "querySalesforce e net tok issued =
        query_loop net ?inst tok (Val (queryUrl ?inst)) [] issued"
    by (rule querySalesforce_loop [OF assms(1)])
  also have "\<dots> = Some (Inl (Thrown \<lparr> err_message = or_str (first_message (body resp))
                                                 ''Failed to query Salesforce'',
                                err_code = ''QUERY_ERROR'',
                                err_status = status resp \<rparr>),
                         issued @ requests_upto net ?inst tok (queryUrl ?inst) (length issued) (Suc k))"
    by (rule query_loop_failed_page [OF queryUrl_nonempty assms(2-5)])
  finally show ?thesis .
qed

text \<open>The theorem at a page followed by a 503.\<close>

theorem failed_page_raises_query_error_witness:
  "truthy_str (SF_INSTANCE_URL sample_env)
   \<and> continuing (failing_second_page 0)
   \<and> failing_second_page 1 = error_page 503 ''Service unavailable''
   \<and> \<not> ok \<lparr> status = 503, body = JArray [\<lparr> message = Val ''Service unavailable'' \<rparr>] :: int json_body \<rparr>
   \<and> \<not> is_null (JArray [\<lparr> message = Val ''Service unavailable'' \<rparr>] :: int json_body)
   \<and> querySalesforce sample_env failing_second_page (Val ''00Dtoken'') [] =
       Some (Inl (Thrown \<lparr> err_message = ''Service unavailable'', err_code = ''QUERY_ERROR'',
                            err_status = 503 \<rparr>),
             [page_request (Val ''00Dtoken'') (queryUrl ''https://acme.my.salesforce.com''),
              page_request (Val ''00Dtoken'')
                ''https://acme.my.salesforce.com/services/data/v59.0/query/01gRO-2000''])"
proof -
  let ?resp = "\<lparr> status = 503, body = JArray [\<lparr> message = Val ''Service unavailable'' \<rparr>] :: int json_body \<rparr>"
  have inst: "truthy_str (SF_INSTANCE_URL sample_env)"
    by (simp add: sample_env_def truthy_str_def)
  have p0: "continuing (failing_second_page 0)"
    by code_simp
  have p1: "failing_second_page 1 = error_page 503 ''Service unavailable''"
    by (simp add: failing_second_page_def serve_def)
  have res: "failing_second_page (length ([] :: request list) + 1) = Resolved ?resp"
    using p1 by (simp add: error_page_def)
  have bad: "\<not> ok ?resp"
    by (simp add: ok_def)
  have nn: "\<not> is_null (body ?resp)"
    by (simp add: is_null_def)
  have before: "\<forall>i<1. continuing (failing_second_page (length ([] :: request list) + i))"
    using p0 by simp
  have msg: "or_str (first_message (body ?resp)) ''Failed to query Salesforce'' = ''Service unavailable''"
    by (simp add: or_str_def first_message_def truthy_str_def)
  have reqs: "requests_upto failing_second_page (template_str (SF_INSTANCE_URL sample_env))
          (Val ''00Dtoken'') (queryUrl (template_str (SF_INSTANCE_URL sample_env))) 0 (Suc 1) =
       [page_request (Val ''00Dtoken'') (queryUrl ''https://acme.my.salesforce.com''),
        page_request (Val ''00Dtoken'')
          ''https://acme.my.salesforce.com/services/data/v59.0/query/01gRO-2000'']"
    by code_simp
  show ?thesis
    using inst p0 p1 bad nn msg reqs
      failed_page_raises_query_error [OF inst before res bad nn, of "Val ''00Dtoken''"]
    by simp
qed

text \<open>
  C3.  A page request answered with status 503 and the JSON body \<^verbatim>\<open>null\<close>, the instance URL
  being configured.  \<^verbatim>\<open>response.json()\<close> resolves to \<^verbatim>\<open>null\<close>, so the \<^verbatim>\<open>catch\<close> that replaces
  an unreadable body by \<^verbatim>\<open>{}\<close> does not fire, and the read \<^verbatim>\<open>errorData[0]\<close> throws the
  runtime's \<^verbatim>\<open>TypeError\<close>: \<open>querySalesforce\<close> raises no error with the code \<^verbatim>\<open>QUERY_ERROR\<close>, and
  the status 503 is lost; as the first answer and after a page with a continuation
  alike.  On the same status with a body that is not JSON, or with an empty array, the
  code does raise the \<^verbatim>\<open>QUERY_ERROR\<close> with the status 503 and its default message.
\<close>

theorem null_error_body_loses_query_error:
  "querySalesforce sample_env (serve [null_error_page 503 :: int fetch_result]) (Val ''00Dtoken'') [] =
     Some (Inl (Raised NullPropertyRead),
           [page_request (Val ''00Dtoken'') (queryUrl ''https://acme.my.salesforce.com'')])
   \<and> querySalesforce sample_env null_failure_after_page (Val ''00Dtoken'') [] =
     Some (Inl (Raised NullPropertyRead),
           [page_request (Val ''00Dtoken'') (queryUrl ''https://acme.my.salesforce.com''),
            page_request (Val ''00Dtoken'')
              ''https://acme.my.salesforce.com/services/data/v59.0/query/01gRO-2000''])
   \<and> querySalesforce sample_env
        (serve [Resolved \<lparr> status = 503, body = NotJson :: int json_body \<rparr>]) (Val ''00Dtoken'') [] =
     Some (Inl (Thrown \<lparr> err_message = ''Failed to query Salesforce'', err_code = ''QUERY_ERROR'',
                          err_status = 503 \<rparr>),
           [page_request (Val ''00Dtoken'') (queryUrl ''https://acme.my.salesforce.com'')])
   \<and> querySalesforce sample_env
        (serve [Resolved \<lparr> status = 503, body = JArray [] :: int json_body \<rparr>]) (Val ''00Dtoken'') [] =
     Some (Inl (Thrown \<lparr> err_message = ''Failed to query Salesforce'', err_code = ''QUERY_ERROR'',
                          err_status = 503 \<rparr>),
           [page_request (Val ''00Dtoken'') (queryUrl ''https://acme.my.salesforce.com'')])"
  by code_simp

text \<open>
  C9, as the code has it.  With the instance URL configured: when the first \<open>k\<close> answers are
  pages the loop goes on after and answer \<open>k\<close> is a successful page whose continuation is
  absent, null or empty, the loop ends with a result, having issued exactly one request
  for each of the pages 0 to \<open>k\<close>; and nothing on the client bounds the number of pages:
  the run never ends exactly when every answer is a successful page with a truthy
  continuation.
\<close>

theorem pagination_ends_only_on_server_signal:
  assumes "truthy_str (SF_INSTANCE_URL e)"
  shows "(\<forall>k. (\<forall>i<k. continuing (net (length issued + i)))
              \<and> success_page (net (length issued + k))
              \<and> falsy_str (continuation (net (length issued + k))) \<longrightarrow>
            (\<exists>recs. querySalesforce e net tok issued =
               Some (Inr recs,
                     issued @ requests_upto net (template_str (SF_INSTANCE_URL e)) tok
                                (queryUrl (template_str (SF_INSTANCE_URL e))) (length issued) (Suc k))))
       \<and> ((querySalesforce e net tok issued = None) =
            (\<forall>i. continuing (net (length issued + i))))"
proof (intro conjI allI impI)
  fix k
  assume h: "(\<forall>i<k. continuing (net (length issued + i)))
              \<and> success_page (net (length issued + k))
              \<and> falsy_str (continuation (net (length issued + k)))"
  let ?inst = "template_str (SF_INSTANCE_URL e)"
  have "querySalesforce e net tok issued =
        query_loop net ?inst tok (Val (queryUrl ?inst)) [] issued"
    by (rule querySalesforce_loop [OF assms])
  also have "\<dots> = Some (Inr ([] @ records_upto net (length issued) (Suc k)),
                         issued @ requests_upto net ?inst tok (queryUrl ?inst) (length issued) (Suc k))"
    using h by (intro query_loop_pages [OF queryUrl_nonempty]) simp_all
  finally
  show "\<exists>recs. querySalesforce e net tok issued =
               Some (Inr recs,
                     issued @ requests_upto net (template_str (SF_INSTANCE_URL e)) tok
                                (queryUrl (template_str (SF_INSTANCE_URL e))) (length issued) (Suc k))"
    by blast
next
  show "(querySalesforce e net tok issued = None) =
            (\<forall>i. continuing (net (length issued + i)))"
    using querySalesforce_loop [OF assms, of net tok issued]
      query_loop_diverges_iff [where u = "queryUrl (template_str (SF_INSTANCE_URL e))"
          and inst = "template_str (SF_INSTANCE_URL e)" and tok = tok and acc = "[]" and net = net
          and issued = issued, OF queryUrl_nonempty]
    by simp
qed

text \<open>The theorem at the three pages, and at a server that always names a next page.\<close>

theorem pagination_ends_only_on_server_signal_witness:
  "truthy_str (SF_INSTANCE_URL sample_env)
   \<and> continuing (three_pages 0) \<and> continuing (three_pages 1)
   \<and> success_page (three_pages 2) \<and> falsy_str (continuation (three_pages 2))
   \<and> (\<exists>recs. querySalesforce sample_env three_pages (Val ''00Dtoken'') [] =
         Some (Inr recs,
               [page_request (Val ''00Dtoken'') (queryUrl ''https://acme.my.salesforce.com''),
                page_request (Val ''00Dtoken'')
                  ''https://acme.my.salesforce.com/services/data/v59.0/query/01gRO-2000'',
                page_request (Val ''00Dtoken'')
                  ''https://acme.my.salesforce.com/services/data/v59.0/query/01gRO-4000'']))
   \<and> continuing (json_page (Val [opportunity ''A1'']) (Val ''/services/data/v59.0/query/01gRO-2000''))
   \<and> querySalesforce sample_env
        (always (json_page (Val [opportunity ''A1'']) (Val ''/services/data/v59.0/query/01gRO-2000'')))
        (Val ''00Dtoken'') [] = None"
proof -
  let ?more = "json_page (Val [opportunity ''A1'']) (Val ''/services/data/v59.0/query/01gRO-2000'')"
  have inst: "truthy_str (SF_INSTANCE_URL sample_env)"
    by (simp add: sample_env_def truthy_str_def)
  have p: "continuing (three_pages 0)" "continuing (three_pages 1)"
    "success_page (three_pages 2)" "falsy_str (continuation (three_pages 2))"
    by code_simp+
  have more: "continuing ?more"
    by code_simp
  have stop: "(\<forall>i<2. continuing (three_pages (length ([] :: request list) + i)))
              \<and> success_page (three_pages (length ([] :: request list) + 2))
              \<and> falsy_str (continuation (three_pages (length ([] :: request list) + 2)))"
    using p by (auto simp: numeral_2_eq_2 less_Suc_eq)
  have forever: "\<forall>i. continuing (always ?more (length ([] :: request list) + i))"
    using more by (simp add: always_def)
  have reqs: "requests_upto three_pages (template_str (SF_INSTANCE_URL sample_env)) (Val ''00Dtoken'')
          (queryUrl (template_str (SF_INSTANCE_URL sample_env))) 0 (Suc 2) =
       [page_request (Val ''00Dtoken'') (queryUrl ''https://acme.my.salesforce.com''),
        page_request (Val ''00Dtoken'')
          ''https://acme.my.salesforce.com/services/data/v59.0/query/01gRO-2000'',
        page_request (Val ''00Dtoken'')
          ''https://acme.my.salesforce.com/services/data/v59.0/query/01gRO-4000'']"
    by code_simp
  have ends: "\<exists>recs. querySalesforce sample_env three_pages (Val ''00Dtoken'') [] =
         Some (Inr recs,
               [] @ requests_upto three_pages (template_str (SF_INSTANCE_URL sample_env))
                      (Val ''00Dtoken'') (queryUrl (template_str (SF_INSTANCE_URL sample_env)))
                      (length ([] :: request list)) (Suc 2))"
    using pagination_ends_only_on_server_signal [OF inst, of three_pages "[]" "Val ''00Dtoken''"] stop
    by blast
  have never: "querySalesforce sample_env (always ?more) (Val ''00Dtoken'') [] = None"
    using pagination_ends_only_on_server_signal [OF inst, of "always ?more" "[]" "Val ''00Dtoken''"]
      forever
    by blast
  show ?thesis
    using inst p more ends never reqs by simp
qed

text \<open>
  C9 as it is written fails on the same kind of page: in \<open>empty_cursor_pages\<close> the first
  answer that omits the continuation field is answer 1, yet the run has issued one request,
  not two; and against a server whose every answer carries \<^verbatim>\<open>nextRecordsUrl: ""\<close>, so that no
  answer ever omits the field, the run ends after its first request.
\<close>

theorem empty_continuation_ends_run:
  "continuation (empty_cursor_pages 0) = Val ''''
   \<and> continuation (empty_cursor_pages 1) = Undefined
   \<and> map_option (length \<circ> snd) (querySalesforce sample_env empty_cursor_pages (Val ''00Dtoken'') [])
       = Some 1
   \<and> querySalesforce sample_env (always (json_page (Val [opportunity ''A1'']) (Val '''')))
       (Val ''00Dtoken'') [] =
       Some (Inr [opportunity ''A1''],
             [page_request (Val ''00Dtoken'') (queryUrl ''https://acme.my.salesforce.com'')])"
  by code_simp

section \<open>Configuration checks, the token exchange and the inbound handler\<close>

text \<open>
  C4, as the code has it.  Each stage checks the variables it reads, before its first
  call to \<^verbatim>\<open>fetch\<close>: \<open>refreshAccessToken\<close> throws the \<^verbatim>\<open>CONFIG_ERROR\<close> with status 500, the list
  of issued requests unchanged, when the client identifier, the client secret or the
  refresh token is missing or empty, and \<open>querySalesforce\<close> does so when the instance URL is
  missing or empty.  \<open>refreshAccessToken\<close> does not read the instance URL and
  \<open>querySalesforce\<close> does not read the three OAuth credentials: changing them changes
  nothing of the outcome.
\<close>

theorem config_error_before_any_request:
  "(falsy_str (SF_CLIENT_ID e) \<or> falsy_str (SF_CLIENT_SECRET e) \<or> falsy_str (SF_REFRESH_TOKEN e) \<longrightarrow>
      refreshAccessToken e net issued =
        (Inl (Thrown \<lparr> err_message = ''Missing Salesforce credentials in environment variables'',
                        err_code = ''CONFIG_ERROR'', err_status = 500 \<rparr>), issued))
   \<and> (falsy_str (SF_INSTANCE_URL e) \<longrightarrow>
      querySalesforce e net tok issued =
        Some (Inl (Thrown \<lparr> err_message = ''Missing SF_INSTANCE_URL in environment variables'',
                             err_code = ''CONFIG_ERROR'', err_status = 500 \<rparr>), issued))
   \<and> refreshAccessToken (e \<lparr> SF_INSTANCE_URL := v \<rparr>) net issued = refreshAccessToken e net issued
   \<and> querySalesforce (e \<lparr> SF_CLIENT_ID := a, SF_CLIENT_SECRET := b, SF_REFRESH_TOKEN := c \<rparr>)
         net tok issued = querySalesforce e net tok issued"
  by (simp add: refreshAccessToken_def querySalesforce_def token_request_def)

text \<open>The theorem at a configuration with an empty client identifier, and at one without
  instance URL.\<close>

theorem config_error_before_any_request_witness:
  "falsy_str (SF_CLIENT_ID no_client_env)
   \<and> refreshAccessToken no_client_env (serve [token_reply (Val ''00Dtoken'') :: int fetch_result]) [] =
        (Inl (Thrown \<lparr> err_message = ''Missing Salesforce credentials in environment variables'',
                        err_code = ''CONFIG_ERROR'', err_status = 500 \<rparr>), [])
   \<and> falsy_str (SF_INSTANCE_URL no_instance_env)
   \<and> querySalesforce no_instance_env (serve [json_page (Val [opportunity ''A1'']) Undefined])
        (Val ''00Dtoken'') [] =
        Some (Inl (Thrown \<lparr> err_message = ''Missing SF_INSTANCE_URL in environment variables'',
                             err_code = ''CONFIG_ERROR'', err_status = 500 \<rparr>), [])"
proof -
  have a: "falsy_str (SF_CLIENT_ID no_client_env)"
    by (simp add: no_client_env_def sample_env_def falsy_str_def truthy_str_def)
  have b: "falsy_str (SF_INSTANCE_URL no_instance_env)"
    by (simp add: no_instance_env_def sample_env_def falsy_str_def truthy_str_def)
  show ?thesis
    using a b
      config_error_before_any_request [of no_client_env
        "serve [token_reply (Val ''00Dtoken'') :: int fetch_result]" "[]"]
      config_error_before_any_request [of no_instance_env
        "serve [json_page (Val [opportunity ''A1'']) Undefined]" "[]" "Val ''00Dtoken''"]
    by simp
qed

text \<open>
  C4 as it is written fails in both directions: without instance URL \<open>refreshAccessToken\<close>
  issues the token request and returns the token, and with an empty client identifier
  \<open>querySalesforce\<close> issues the page request and returns the records.
\<close>

theorem stages_check_their_own_fields_only:
  "falsy_str (SF_INSTANCE_URL no_instance_env)
   \<and> refreshAccessToken no_instance_env (serve [token_reply (Val ''00Dtoken'') :: int fetch_result]) [] =
        (Inr (Val ''00Dtoken''), [token_request no_instance_env])
   \<and> falsy_str (SF_CLIENT_ID no_client_env)
   \<and> querySalesforce no_client_env (serve [json_page (Val [opportunity ''A1'']) Undefined])
        (Val ''00Dtoken'') [] =
        Some (Inr [opportunity ''A1''],
              [page_request (Val ''00Dtoken'') (queryUrl ''https://acme.my.salesforce.com'')])"
  by code_simp

text \<open>
  C1.  The token endpoint answers 200 with a JSON object that has no \<^verbatim>\<open>access_token\<close>, the
  three credentials being configured.  \<open>refreshAccessToken\<close> of \<^verbatim>\<open>api/salesforce.js\<close> throws
  nothing: it returns \<^verbatim>\<open>undefined\<close> as the token.  The token step of \<^verbatim>\<open>server.js\<close> throws on the
  same answer.
\<close>

theorem missing_access_token_is_returned:
  "refreshAccessToken sample_env (serve [token_reply Undefined :: int fetch_result]) [] =
     (Inr Undefined, [token_request sample_env])
   \<and> server_token_step sample_env (serve [token_reply Undefined :: int fetch_result]) [] =
     (Inl (PlainError ''OAuth failed''), [token_request sample_env])"
  by code_simp

text \<open>
  C5.  An \<^verbatim>\<open>OPTIONS\<close> request to \<open>handler\<close> of \<^verbatim>\<open>api/salesforce.js\<close> is answered by the first
  statement, the test for a method other than \<^verbatim>\<open>GET\<close>: status 405, code
  \<^verbatim>\<open>METHOD_NOT_ALLOWED\<close>, no CORS header, whatever the runtime, the configuration and the
  network; the branch that answers \<^verbatim>\<open>OPTIONS\<close> with 200 is never reached.  The listener of
  \<^verbatim>\<open>server.js\<close> answers the same request with 200.
\<close>

theorem options_request_gets_405:
  "handler rt e net \<lparr> http_method = ''OPTIONS'' \<rparr> =
     Some (\<lparr> reply_status = 405, reply_headers = [],
             reply_json = ErrorJson ''Method not allowed'' ''METHOD_NOT_ALLOWED'' \<rparr>, [])
   \<and> server_preflight \<lparr> http_method = ''OPTIONS'' \<rparr> =
     Some \<lparr> reply_status = 200,
            reply_headers = [(''Access-Control-Allow-Origin'', ''*''),
                             (''Access-Control-Allow-Methods'', ''GET, OPTIONS'')],
            reply_json = NoContent \<rparr>"
  by (simp add: handler_def server_preflight_def)

section \<open>The timestamp column\<close>

text \<open>
  C8.  In the reference runtime the timestamp \<^verbatim>\<open>2023-08-28T12:07:00.000+0000\<close> is rendered by
  \<open>formatTimestamp\<close> of \<^verbatim>\<open>server.js\<close> in the local zone of the process: \<^verbatim>\<open>8/28/2023, 12:07 PM\<close>
  when that zone is UTC, \<^verbatim>\<open>8/28/2023, 9:07 PM\<close> when it is Asia/Tokyo.  \<open>formatTimestamp\<close> of
  \<^verbatim>\<open>api/salesforce.js\<close>, which names the zone America/New_York in the call, gives
  \<^verbatim>\<open>8/28/2023, 8:07 AM\<close> in both processes.
\<close>

theorem server_timestamp_follows_local_zone:
  "server_formatTimestamp (ref_runtime ''UTC'' ''2024-01-01T00:00:00.000Z'')
     (Val ''2023-08-28T12:07:00.000+0000'') = ''8/28/2023, 12:07 PM''
   \<and> server_formatTimestamp (ref_runtime ''Asia/Tokyo'' ''2024-01-01T00:00:00.000Z'')
     (Val ''2023-08-28T12:07:00.000+0000'') = ''8/28/2023, 9:07 PM''
   \<and> formatTimestamp (ref_runtime ''UTC'' ''2024-01-01T00:00:00.000Z'')
     (Val ''2023-08-28T12:07:00.000+0000'') = ''8/28/2023, 8:07 AM''
   \<and> formatTimestamp (ref_runtime ''Asia/Tokyo'' ''2024-01-01T00:00:00.000Z'')
     (Val ''2023-08-28T12:07:00.000+0000'') = ''8/28/2023, 8:07 AM''"
  by code_simp

section \<open>Further properties of the pipeline\<close>

lemma or_str_idem: "d \<noteq> [] \<Longrightarrow> or_str (Val (or_str v d)) d' = or_str v d"
  by (cases v) (auto simp: or_str_def truthy_str_def)

lemma or_str_literal: "s \<noteq> [] \<Longrightarrow> or_str (Val s) d = s"
  by (simp add: or_str_def truthy_str_def)

text \<open>
  Every inbound request whose method is not \<^verbatim>\<open>GET\<close> is answered with status 405 and the code
  \<^verbatim>\<open>METHOD_NOT_ALLOWED\<close>, and nothing is sent to Salesforce.
\<close>

theorem other_methods_get_405:
  assumes "http_method req \<noteq> ''GET''"
  shows "handler rt e net req =
           Some (\<lparr> reply_status = 405, reply_headers = [],
                   reply_json = ErrorJson ''Method not allowed'' ''METHOD_NOT_ALLOWED'' \<rparr>, [])"
  using assms by (simp add: handler_def)

text \<open>The theorem at a \<^verbatim>\<open>POST\<close> request.\<close>

theorem other_methods_get_405_witness:
  "http_method \<lparr> http_method = ''POST'' \<rparr> \<noteq> ''GET''
   \<and> handler sample_runtime sample_env three_pages \<lparr> http_method = ''POST'' \<rparr> =
        Some (\<lparr> reply_status = 405, reply_headers = [],
                reply_json = ErrorJson ''Method not allowed'' ''METHOD_NOT_ALLOWED'' \<rparr>, [])"
proof -
  have h: "http_method \<lparr> http_method = ''POST'' \<rparr> \<noteq> ''GET''" by simp
  show ?thesis
    using h other_methods_get_405 [OF h, of sample_runtime sample_env three_pages] by simp
qed

text \<open>
  The token exchange with its credentials configured, when the endpoint answers: a 2xx
  answer with a JSON object returns that object's \<^verbatim>\<open>access_token\<close>; an answer outside 2xx
  whose body is not the JSON literal \<^verbatim>\<open>null\<close> throws the \<^verbatim>\<open>AUTH_ERROR\<close> with status 401, whose
  message is the \<^verbatim>\<open>error_description\<close> of the body when it has a non-empty one; an answer
  outside 2xx with the body \<^verbatim>\<open>null\<close> ends in the runtime's \<^verbatim>\<open>TypeError\<close> at the read of
  \<^verbatim>\<open>errorData.error_description\<close>.  In each case exactly the token request has been issued.
\<close>

theorem token_exchange_outcomes:
  assumes "truthy_str (SF_CLIENT_ID e)" and "truthy_str (SF_CLIENT_SECRET e)"
    and "truthy_str (SF_REFRESH_TOKEN e)" and "net (length issued) = Resolved resp"
  shows "(ok resp \<and> body resp = JObject obj \<longrightarrow>
            refreshAccessToken e net issued = (Inr (access_token obj), issued @ [token_request e]))
       \<and> (\<not> ok resp \<and> \<not> is_null (body resp) \<longrightarrow>
            refreshAccessToken e net issued =
              (Inl (Thrown \<lparr> err_message = or_str (body_error_description (body resp))
                                               ''Failed to authenticate with Salesforce'',
                              err_code = ''AUTH_ERROR'', err_status = 401 \<rparr>),
               issued @ [token_request e]))
       \<and> (\<not> ok resp \<and> is_null (body resp) \<longrightarrow>
            refreshAccessToken e net issued =
              (Inl (Raised NullPropertyRead), issued @ [token_request e]))"
  using assms
  by (auto simp: refreshAccessToken_def falsy_str_def fetch_def body_access_token_def
        Let_def not_json_def is_null_def json_or_empty_def body_error_description_def
        empty_object_def split: json_body.splits)

text \<open>The theorem at a granted and at a refused exchange.\<close>

theorem token_exchange_outcomes_witness:
  "truthy_str (SF_CLIENT_ID sample_env) \<and> truthy_str (SF_CLIENT_SECRET sample_env)
   \<and> truthy_str (SF_REFRESH_TOKEN sample_env)
   \<and> refreshAccessToken sample_env (serve [token_reply (Val ''00Dtoken'') :: int fetch_result]) [] =
        (Inr (Val ''00Dtoken''), [token_request sample_env])
   \<and> refreshAccessToken sample_env
        (serve [Resolved \<lparr> status = 400,
                            body = JObject \<lparr> access_token = Undefined,
                                             error_description = Val ''expired access/refresh token'',
                                             records = Undefined :: int raw_record list jsval,
                                             nextRecordsUrl = Undefined \<rparr> \<rparr>]) [] =
        (Inl (Thrown \<lparr> err_message = ''expired access/refresh token'',
                        err_code = ''AUTH_ERROR'', err_status = 401 \<rparr>), [token_request sample_env])"
proof -
  let ?good = "\<lparr> access_token = Val ''00Dtoken'', error_description = Undefined,
                 records = Undefined :: int raw_record list jsval, nextRecordsUrl = Undefined \<rparr>"
  let ?bad = "\<lparr> access_token = Undefined, error_description = Val ''expired access/refresh token'',
                records = Undefined :: int raw_record list jsval, nextRecordsUrl = Undefined \<rparr>"
  have c: "truthy_str (SF_CLIENT_ID sample_env)" "truthy_str (SF_CLIENT_SECRET sample_env)"
    "truthy_str (SF_REFRESH_TOKEN sample_env)"
    by (simp_all add: sample_env_def truthy_str_def)
  have g: "serve [token_reply (Val ''00Dtoken'') :: int fetch_result] (length ([] :: request list)) =
             Resolved \<lparr> status = 200, body = JObject ?good \<rparr>"
    by (simp add: serve_def token_reply_def)
  have b: "serve [Resolved \<lparr> status = 400, body = JObject ?bad \<rparr>] (length ([] :: request list)) =
             Resolved \<lparr> status = 400, body = JObject ?bad \<rparr>"
    by (simp add: serve_def)
  show ?thesis
    using c
      token_exchange_outcomes [where net = "serve [token_reply (Val ''00Dtoken'') :: int fetch_result]"
        and issued = "[]" and obj = ?good, OF c g]
      token_exchange_outcomes [where net = "serve [Resolved \<lparr> status = 400, body = JObject ?bad \<rparr>]"
        and issued = "[]" and obj = ?bad, OF c b]
    by (simp add: ok_def or_str_def truthy_str_def body_error_description_def is_null_def)
qed

text \<open>
  \<open>formatTimestamp\<close> of \<^verbatim>\<open>api/salesforce.js\<close> does not depend on the local zone or the clock of the
  process, in the reference runtime, on the timestamps the reference parser reads, those
  with an explicit offset; a null, absent or empty timestamp gives the empty string in
  every runtime.
\<close>

theorem timestamp_zone_is_fixed:
  assumes "ref_Date_parse s = Some t"
  shows "formatTimestamp (ref_runtime zone1 now1) (Val s) =
           formatTimestamp (ref_runtime zone2 now2) (Val s)
       \<and> formatTimestamp rt Null = '''' \<and> formatTimestamp rt Undefined = ''''
       \<and> formatTimestamp rt (Val '''') = ''''"
proof -
  have "ref_toLocaleString zone1 (Some z) tv = ref_toLocaleString zone2 (Some z) tv" for z tv
    by (cases tv) (simp_all add: ref_toLocaleString_def)
  then show ?thesis
    by (simp add: formatTimestamp_def ref_runtime_def)
qed

text \<open>The theorem at \<^verbatim>\<open>2023-08-28T12:07:00.000+0000\<close>, under UTC and under Asia/Tokyo.\<close>

theorem timestamp_zone_is_fixed_witness:
  "ref_Date_parse ''2023-08-28T12:07:00.000+0000'' = Some 1693224420000
   \<and> formatTimestamp (ref_runtime ''UTC'' ''2024-01-01T00:00:00.000Z'')
        (Val ''2023-08-28T12:07:00.000+0000'') = ''8/28/2023, 8:07 AM''
   \<and> formatTimestamp (ref_runtime ''Asia/Tokyo'' ''2024-06-01T00:00:00.000Z'')
        (Val ''2023-08-28T12:07:00.000+0000'') = ''8/28/2023, 8:07 AM''"
proof -
  have p: "ref_Date_parse ''2023-08-28T12:07:00.000+0000'' = Some 1693224420000"
    by code_simp
  have u: "formatTimestamp (ref_runtime ''UTC'' ''2024-01-01T00:00:00.000Z'')
        (Val ''2023-08-28T12:07:00.000+0000'') = ''8/28/2023, 8:07 AM''"
    by code_simp
  have e: "formatTimestamp (ref_runtime ''UTC'' ''2024-01-01T00:00:00.000Z'')
        (Val ''2023-08-28T12:07:00.000+0000'') =
      formatTimestamp (ref_runtime ''Asia/Tokyo'' ''2024-06-01T00:00:00.000Z'')
        (Val ''2023-08-28T12:07:00.000+0000'')"
    by (rule conjunct1 [OF timestamp_zone_is_fixed [OF p]])
  show ?thesis
    using p u e by simp
qed

text \<open>
  A whole run of the handler in which the token is granted and a page request fails with
  a body other than the JSON literal \<^verbatim>\<open>null\<close>: the
  reply carries the status of the failed response (when it is not 0), the code
  \<^verbatim>\<open>QUERY_ERROR\<close> and no data, after the token request and one request per page.
\<close>

theorem handler_passes_query_status_through:
  assumes "truthy_str (SF_CLIENT_ID e)" and "truthy_str (SF_CLIENT_SECRET e)"
    and "truthy_str (SF_REFRESH_TOKEN e)" and "truthy_str (SF_INSTANCE_URL e)"
    and "net 0 = Resolved tresp" and "ok tresp"
    and "\<not> not_json (body tresp) \<and> \<not> is_null (body tresp)"
    and "\<forall>i<k. continuing (net (1 + i))"
    and "net (1 + k) = Resolved resp" and "\<not> ok resp" and "status resp \<noteq> 0"
    and "\<not> is_null (body resp)"
  shows "\<exists>issued. handler rt e net \<lparr> http_method = ''GET'' \<rparr> =
           Some (\<lparr> reply_status = status resp, reply_headers = cors_headers,
                   reply_json = ErrorJson (or_str (first_message (body resp))
                                             ''Failed to query Salesforce'') ''QUERY_ERROR'' \<rparr>,
                 issued)
         \<and> length issued = k + 2"
proof -
  let ?tok = "body_access_token (body tresp)"
  have tokstep: "refreshAccessToken e net [] = (Inr ?tok, [token_request e])"
    using assms(1-3,5-7)
    by (simp add: refreshAccessToken_def falsy_str_def fetch_def Let_def)
  have before: "\<forall>i<k. continuing (net (length [token_request e] + i))"
    using assms(8) by simp
  have here: "net (length [token_request e] + k) = Resolved resp"
    using assms(9) by simp
  have q: "querySalesforce e net ?tok [token_request e] =
      Some (Inl (Thrown \<lparr> err_message = or_str (first_message (body resp))
                                            ''Failed to query Salesforce'',
                           err_code = ''QUERY_ERROR'', err_status = status resp \<rparr>),
            [token_request e] @ requests_upto net (template_str (SF_INSTANCE_URL e)) ?tok
               (queryUrl (template_str (SF_INSTANCE_URL e))) (length [token_request e]) (Suc k))"
    using querySalesforce_loop [OF assms(4), of net ?tok "[token_request e]"]
      query_loop_failed_page [where inst = "template_str (SF_INSTANCE_URL e)" and tok = ?tok
        and acc = "[]", OF queryUrl_nonempty before here assms(10,12)]
    by simp
  show ?thesis
    using tokstep q assms(11)
    by (simp add: handler_def error_reply_def or_str_idem or_str_literal requests_upto_def)
qed

text \<open>The theorem at a token, a page and a 503.\<close>

theorem handler_passes_query_status_through_witness:
  "truthy_str (SF_CLIENT_ID sample_env) \<and> truthy_str (SF_CLIENT_SECRET sample_env)
   \<and> truthy_str (SF_REFRESH_TOKEN sample_env) \<and> truthy_str (SF_INSTANCE_URL sample_env)
   \<and> continuing (token_then_failure 1)
   \<and> token_then_failure 2 = error_page 503 ''Service unavailable''
   \<and> (\<exists>issued. handler sample_runtime sample_env token_then_failure \<lparr> http_method = ''GET'' \<rparr> =
          Some (\<lparr> reply_status = 503, reply_headers = cors_headers,
                  reply_json = ErrorJson ''Service unavailable'' ''QUERY_ERROR'' \<rparr>, issued)
        \<and> length issued = 3)"
proof -
  let ?tresp = "\<lparr> status = 200,
                  body = JObject \<lparr> access_token = Val ''00Dtoken'', error_description = Undefined,
                                   records = Undefined :: int raw_record list jsval,
                                   nextRecordsUrl = Undefined \<rparr> \<rparr>"
  let ?resp = "\<lparr> status = 503, body = JArray [\<lparr> message = Val ''Service unavailable'' \<rparr>] :: int json_body \<rparr>"
  have c: "truthy_str (SF_CLIENT_ID sample_env)" "truthy_str (SF_CLIENT_SECRET sample_env)"
    "truthy_str (SF_REFRESH_TOKEN sample_env)" "truthy_str (SF_INSTANCE_URL sample_env)"
    by (simp_all add: sample_env_def truthy_str_def)
  have t: "token_then_failure 0 = Resolved ?tresp" "ok ?tresp"
    "\<not> not_json (body ?tresp) \<and> \<not> is_null (body ?tresp)"
    by (simp_all add: token_then_failure_def serve_def token_reply_def ok_def not_json_def
          is_null_def)
  have p1: "continuing (token_then_failure 1)"
    by code_simp
  have before: "\<forall>i<1. continuing (token_then_failure (1 + i))"
    using p1 by simp
  have p2: "token_then_failure 2 = error_page 503 ''Service unavailable''"
    by (simp add: token_then_failure_def serve_def)
  have here: "token_then_failure (1 + 1) = Resolved ?resp"
    by code_simp
  have bad: "\<not> ok ?resp" "status ?resp \<noteq> 0" "\<not> is_null (body ?resp)"
    by (simp_all add: ok_def is_null_def)
  have msg: "or_str (first_message (body ?resp)) ''Failed to query Salesforce'' = ''Service unavailable''"
    by (simp add: or_str_def first_message_def truthy_str_def)
  show ?thesis
    using c p1 p2 msg
      handler_passes_query_status_through [OF c t before here bad, of sample_runtime]
    by (simp add: numeral_2_eq_2 numeral_3_eq_3)
qed

text \<open>
  A whole run of the handler in which the token is granted and the pages end: the reply is
  200 with the transformed records of all pages in order, their number as \<^verbatim>\<open>recordCount\<close> and
  the clock's reading as \<^verbatim>\<open>fetchedAt\<close>.
\<close>

theorem handler_returns_transformed_pages:
  assumes "truthy_str (SF_CLIENT_ID e)" and "truthy_str (SF_CLIENT_SECRET e)"
    and "truthy_str (SF_REFRESH_TOKEN e)" and "truthy_str (SF_INSTANCE_URL e)"
    and "net 0 = Resolved tresp" and "ok tresp"
    and "\<not> not_json (body tresp) \<and> \<not> is_null (body tresp)"
    and "\<forall>i<k. continuing (net (1 + i))"
    and "success_page (net (1 + k))" and "falsy_str (continuation (net (1 + k)))"
  shows "\<exists>issued. handler rt e net \<lparr> http_method = ''GET'' \<rparr> =
           Some (\<lparr> reply_status = 200, reply_headers = cors_headers,
                   reply_json = SuccessJson (transformData rt (records_upto net 1 (Suc k)))
                                  (length (records_upto net 1 (Suc k))) (now_toISOString rt) \<rparr>,
                 issued)
         \<and> length issued = k + 2"
proof -
  let ?tok = "body_access_token (body tresp)"
  have tokstep: "refreshAccessToken e net [] = (Inr ?tok, [token_request e])"
    using assms(1-3,5-7)
    by (simp add: refreshAccessToken_def falsy_str_def fetch_def Let_def)
  have before: "\<forall>i<k. continuing (net (length [token_request e] + i))"
    using assms(8) by simp
  have last: "success_page (net (length [token_request e] + k))"
    "falsy_str (continuation (net (length [token_request e] + k)))"
    using assms(9,10) by simp_all
  have q: "querySalesforce e net ?tok [token_request e] =
      Some (Inr (records_upto net (length [token_request e]) (Suc k)),
            [token_request e] @ requests_upto net (template_str (SF_INSTANCE_URL e)) ?tok
               (queryUrl (template_str (SF_INSTANCE_URL e))) (length [token_request e]) (Suc k))"
    using querySalesforce_loop [OF assms(4), of net ?tok "[token_request e]"]
      query_loop_pages [where inst = "template_str (SF_INSTANCE_URL e)" and tok = ?tok
        and acc = "[]", OF queryUrl_nonempty before last]
    by simp
  show ?thesis
    using tokstep q
    by (simp add: handler_def Let_def requests_upto_def transformData_def)
qed

text \<open>The theorem at a token and a single page.\<close>

theorem handler_returns_transformed_pages_witness:
  "truthy_str (SF_CLIENT_ID sample_env) \<and> truthy_str (SF_CLIENT_SECRET sample_env)
   \<and> truthy_str (SF_REFRESH_TOKEN sample_env) \<and> truthy_str (SF_INSTANCE_URL sample_env)
   \<and> success_page (token_then_page 1) \<and> falsy_str (continuation (token_then_page 1))
   \<and> (\<exists>issued. handler sample_runtime sample_env token_then_page \<lparr> http_method = ''GET'' \<rparr> =
          Some (\<lparr> reply_status = 200, reply_headers = cors_headers,
                  reply_json = SuccessJson
                     [[(''Amount'', ''1500''), (''Close Date'', ''7/20/2023''),
                       (''Quote sent TImestamp 2'', ''8/28/2023, 8:07 AM''),
                       (''Stage'', ''Closed Won''), (''Opportunity Owner'', ''Ada''),
                       (''Close Month'', ''7/1/2023'')]] 1 ''2024-01-01T00:00:00.000Z'' \<rparr>, issued)
        \<and> length issued = 2)"
proof -
  let ?tresp = "\<lparr> status = 200,
                  body = JObject \<lparr> access_token = Val ''00Dtoken'', error_description = Undefined,
                                   records = Undefined :: int raw_record list jsval,
                                   nextRecordsUrl = Undefined \<rparr> \<rparr>"
  have c: "truthy_str (SF_CLIENT_ID sample_env)" "truthy_str (SF_CLIENT_SECRET sample_env)"
    "truthy_str (SF_REFRESH_TOKEN sample_env)" "truthy_str (SF_INSTANCE_URL sample_env)"
    by (simp_all add: sample_env_def truthy_str_def)
  have t: "token_then_page 0 = Resolved ?tresp" "ok ?tresp"
    "\<not> not_json (body ?tresp) \<and> \<not> is_null (body ?tresp)"
    by (simp_all add: token_then_page_def serve_def token_reply_def ok_def not_json_def
          is_null_def)
  have before: "\<forall>i<0. continuing (token_then_page (1 + i))"
    by simp
  have p: "success_page (token_then_page 1)" "falsy_str (continuation (token_then_page 1))"
    by code_simp+
  have last: "success_page (token_then_page (1 + 0))"
    "falsy_str (continuation (token_then_page (1 + 0)))"
    using p by simp_all
  have recs: "records_upto token_then_page 1 (Suc 0) = [opportunity ''A1'']"
    by code_simp
  have out: "transformData sample_runtime [opportunity ''A1''] =
      [[(''Amount'', ''1500''), (''Close Date'', ''7/20/2023''),
        (''Quote sent TImestamp 2'', ''8/28/2023, 8:07 AM''),
        (''Stage'', ''Closed Won''), (''Opportunity Owner'', ''Ada''),
        (''Close Month'', ''7/1/2023'')]]"
    by code_simp
  have now: "now_toISOString sample_runtime = ''2024-01-01T00:00:00.000Z''"
    by (simp add: sample_runtime_def ref_runtime_def)
  show ?thesis
    using c p recs out now
      handler_returns_transformed_pages [OF c t before last, of sample_runtime]
    by (simp add: numeral_2_eq_2)
qed

end
